theory Spec2Isabelle
  imports Complex_Main "HOL-Library.Sublist" "HOL-Library.Code_Target_Nat"
begin

section \<open>JavaScript values used by server.js\<close>

text \<open>
  A JavaScript string is a sequence of UTF-16 code units; a code unit is modelled as a
  natural number and a string as a list of them. \<open>lit\<close> turns a literal of the source
  (all of them ASCII but for one dash) into such a list.

  The request body is parsed JSON. \<open>requirements\<close> is the one field on which the program
  calls string methods (\<open>trim\<close>, \<open>toLowerCase\<close>), so its JSON type decides whether a
  \<open>TypeError\<close> is raised: it is an optional JSON value, \<open>None\<close> for \<open>undefined\<close>. The other
  text fields are only tested for truthiness and concatenated, which never raises; they
  are optional strings, as in the data model of the specification, and so are the fields
  of a raw result item. \<open>maxResults\<close> is an optional number.

  A call that may raise has an \<open>outcome\<close>: \<open>Returns v\<close> or \<open>Throws\<close>.
\<close>

type_synonym js_string = "nat list"

definition lit :: "string \<Rightarrow> js_string" where
  "lit s = map of_char s"

datatype 'a outcome = Returns 'a | Throws

datatype json =
    JNull
  | JBool bool
  | JNum rat
  | JStr js_string
  | JArr "json list"
  | JObj "(js_string \<times> json) list"

fun js_truthy :: "json \<Rightarrow> bool" where
  "js_truthy JNull = False"
| "js_truthy (JBool b) = b"
| "js_truthy (JNum n) = (n \<noteq> 0)"
| "js_truthy (JStr s) = (s \<noteq> [])"
| "js_truthy (JArr xs) = True"
| "js_truthy (JObj kvs) = True"

definition string_receiver :: "json option \<Rightarrow> js_string outcome" where
  \<comment> \<open>\<open>(v || "")\<close> as the receiver of a string method: a truthy value that is not a
      string has no such method, and the call raises a \<open>TypeError\<close>\<close>
  "string_receiver v =
     (case v of
        None \<Rightarrow> Returns []
      | Some j \<Rightarrow>
          if js_truthy j then (case j of JStr s \<Rightarrow> Returns s | _ \<Rightarrow> Throws)
          else Returns [])"

definition truthy :: "js_string option \<Rightarrow> bool" where
  \<comment> \<open>\<open>if (v)\<close> on an optional string: \<open>undefined\<close> and \<open>""\<close> are falsy.\<close>
  "truthy v = (case v of None \<Rightarrow> False | Some s \<Rightarrow> s \<noteq> [])"

definition or_else :: "js_string option \<Rightarrow> js_string \<Rightarrow> js_string" where
  \<comment> \<open>\<open>v || d\<close> where \<open>d\<close> is a string.\<close>
  "or_else v d = (case v of None \<Rightarrow> d | Some s \<Rightarrow> if s \<noteq> [] then s else d)"

definition is_upper :: "nat \<Rightarrow> bool" where
  \<comment> \<open>\<open>A\<close>..\<open>Z\<close>\<close>
  "is_upper u = (65 \<le> u \<and> u \<le> 90)"

definition is_lower :: "nat \<Rightarrow> bool" where
  \<comment> \<open>\<open>a\<close>..\<open>z\<close>\<close>
  "is_lower u = (97 \<le> u \<and> u \<le> 122)"

definition is_digit :: "nat \<Rightarrow> bool" where
  \<comment> \<open>\<open>0\<close>..\<open>9\<close>\<close>
  "is_digit u = (48 \<le> u \<and> u \<le> 57)"

definition is_space :: "nat \<Rightarrow> bool" where
  \<comment> \<open>the white space and line terminators of ECMAScript, which \<open>trim\<close> removes and \<open>\s\<close>
      matches: TAB, LF, VT, FF, CR, SP, U+00A0, U+1680, U+2000..U+200A, U+2028, U+2029,
      U+202F, U+205F, U+3000, U+FEFF\<close>
  "is_space u =
     (u \<in> {0x9, 0xA, 0xB, 0xC, 0xD, 0x20, 0xA0, 0x1680, 0x2028, 0x2029, 0x202F, 0x205F,
            0x3000, 0xFEFF}
      \<or> (0x2000 \<le> u \<and> u \<le> 0x200A))"

definition ascii_lower :: "nat \<Rightarrow> nat" where
  "ascii_lower u = (if is_upper u then u + 32 else u)"

text \<open>
  \<open>toLowerCase\<close> maps every code point by the case tables of Unicode. An ASCII code
  unit maps as \<open>ascii_lower\<close> says. Two other code points have an ASCII letter in their
  lower case: the Kelvin sign U+212A becomes \<open>k\<close>, and U+0130 becomes \<open>i\<close> followed by
  U+0307. The rest of the table is not code of this repository; it is the parameter
  \<open>tbl\<close>, which gives for a code unit between the units before and after it the code
  units that replace it, counted from 128, since none of them is ASCII.
\<close>

type_synonym case_table = "nat list \<Rightarrow> nat \<Rightarrow> nat list \<Rightarrow> nat list"

definition lower_unit :: "case_table \<Rightarrow> nat list \<Rightarrow> nat \<Rightarrow> nat list \<Rightarrow> nat list" where
  "lower_unit tbl pre u post =
     (if u < 128 then [ascii_lower u]
      else if u = 0x212A then [0x6B]
      else if u = 0x130 then [0x69, 0x307]
      else map (\<lambda>d. 128 + d) (tbl pre u post))"

fun lower_from :: "case_table \<Rightarrow> nat list \<Rightarrow> nat list \<Rightarrow> nat list" where
  "lower_from tbl pre [] = []"
| "lower_from tbl pre (u # post) =
     lower_unit tbl pre u post @ lower_from tbl (pre @ [u]) post"

definition toLowerCase :: "case_table \<Rightarrow> js_string \<Rightarrow> js_string" where
  "toLowerCase tbl s = lower_from tbl [] s"

definition trim :: "js_string \<Rightarrow> js_string" where
  "trim s = rev (dropWhile is_space (rev (dropWhile is_space s)))"

fun join :: "js_string \<Rightarrow> js_string list \<Rightarrow> js_string" where
  "join sep [] = []"
| "join sep [x] = x"
| "join sep (x # y # zs) = x @ sep @ join sep (y # zs)"

fun js_includes :: "js_string \<Rightarrow> js_string \<Rightarrow> bool" where
  \<comment> \<open>\<open>hay.includes(needle)\<close>: the needle starts at some position of the hay.\<close>
  "js_includes [] needle = (needle = [])"
| "js_includes (c # cs) needle = (prefix needle (c # cs) \<or> js_includes cs needle)"

definition en_dash :: js_string where
  \<comment> \<open>U+2013\<close>
  "en_dash = [0x2013]"

fun string_of_nat :: "nat \<Rightarrow> js_string" where
  \<comment> \<open>a non-negative integer in a template literal: its decimal digits\<close>
  "string_of_nat n =
     (if n < 10 then [48 + n] else string_of_nat (n div 10) @ [48 + n mod 10])"

declare string_of_nat.simps [simp del]

definition string_of_int :: "int \<Rightarrow> js_string" where
  "string_of_int i =
     (if i < 0 then lit ''-'' @ string_of_nat (nat (- i)) else string_of_nat (nat i))"

section \<open>Query builder\<close>

definition buildQuery ::
  "json option \<Rightarrow> js_string option \<Rightarrow> js_string option \<Rightarrow> js_string outcome" where
  "buildQuery requirements country certifications =
     (case string_receiver requirements of
        Throws \<Rightarrow> Throws
      | Returns r \<Rightarrow>
          (let base = trim r;
               base = (if base = [] then lit ''industrial supplier'' else base);
               base = (case certifications of
                         None \<Rightarrow> base
                       | Some c \<Rightarrow> if c \<noteq> [] then base @ lit '' '' @ c else base);
               extraKeywords = [lit ''supplier'', lit ''manufacturer'', lit ''vendor'', lit ''B2B''];
               query = base @ lit '' ('' @ join (lit '' OR '') extraKeywords @ lit '')''
           in Returns (case country of
                         None \<Rightarrow> query
                       | Some c \<Rightarrow> if c \<noteq> [] then query @ lit '' in '' @ c else query)))"

section \<open>Result mapper\<close>

text \<open>
  \<open>new URL(url).hostname\<close> runs the URL parser of the runtime, which is not code of
  this repository: it is a parameter \<open>url_hostname\<close> of the model, \<open>Throws\<close> where the
  constructor throws and \<open>Returns h\<close> where it yields the host name \<open>h\<close>.

  The mapper is called by the handler only, after \<open>buildQuery\<close> has returned; its
  \<open>requirements\<close> are then a string or a falsy value, which \<open>requirements || ""\<close>
  treats as the absent one. The mapper proper takes them as an optional string;
  \<open>mapResultToSupplier_call\<close> below is the call on any JSON value.
\<close>

record raw_item =
  item_link :: "js_string option"
  item_url :: "js_string option"
  item_title :: "js_string option"
  item_snippet :: "js_string option"
  item_description :: "js_string option"

definition url_of :: "raw_item \<Rightarrow> js_string" where
  \<comment> \<open>\<open>item.link || item.url || ""\<close>\<close>
  "url_of item = or_else (item_link item) (or_else (item_url item) [])"

definition displayLink_of :: "(js_string \<Rightarrow> js_string outcome) \<Rightarrow> js_string \<Rightarrow> js_string" where
  \<comment> \<open>the \<open>try\<close> block: the \<open>catch\<close> leaves the initial "unknown"\<close>
  "displayLink_of url_hostname u =
     (if u \<noteq> [] then (case url_hostname u of Returns h \<Rightarrow> h | Throws \<Rightarrow> lit ''unknown'')
      else lit ''unknown'')"

definition title_of :: "(js_string \<Rightarrow> js_string outcome) \<Rightarrow> raw_item \<Rightarrow> js_string" where
  "title_of url_hostname item =
     or_else (item_title item) (displayLink_of url_hostname (url_of item))"

definition snippet_of :: "raw_item \<Rightarrow> js_string" where
  "snippet_of item = or_else (item_snippet item) (or_else (item_description item) [])"

subsection \<open>Tags, size, turnover\<close>

definition tags_of :: "js_string \<Rightarrow> js_string \<Rightarrow> js_string list" where
  \<comment> \<open>each \<open>push\<close> appends; the arguments are the lowercased snippet and requirements\<close>
  "tags_of lowerSnippet lowerReq =
     (if js_includes lowerSnippet (lit ''iso'') then [lit ''ISO / quality''] else [])
     @ (if js_includes lowerSnippet (lit ''medical'') \<or> js_includes lowerSnippet (lit ''pharma'')
        then [lit ''Life sciences''] else [])
     @ (if js_includes lowerSnippet (lit ''plastic'') then [lit ''Plastics''] else [])
     @ (if js_includes lowerSnippet (lit ''contract manufacturing'')
        then [lit ''Contract manufacturing''] else [])
     @ (if js_includes lowerReq (lit ''prototype'') \<or> js_includes lowerReq (lit ''prototyping'')
        then [lit ''Prototyping''] else [])
     @ [lit ''Web result'']"

definition employees_of :: "js_string \<Rightarrow> js_string" where
  "employees_of lowerSnippet =
     (if js_includes lowerSnippet (lit ''employees'')
      then lit ''Employees mentioned in snippet '' @ en_dash @ lit '' confirm on website''
      else lit ''Unknown (check company website / LinkedIn)'')"

definition sizeCategory_of :: "js_string \<Rightarrow> js_string" where
  "sizeCategory_of lowerSnippet =
     (let sizeCategory = lit ''Unknown'' in
      if js_includes lowerSnippet (lit ''small company'')
         \<or> js_includes lowerSnippet (lit ''sme'')
         \<or> js_includes lowerSnippet (lit ''family-owned'')
         \<or> js_includes lowerSnippet (lit ''family owned'')
      then lit ''Small / SME (heuristic from snippet)''
      else if js_includes lowerSnippet (lit ''multinational'')
         \<or> js_includes lowerSnippet (lit ''global leader'')
         \<or> js_includes lowerSnippet (lit ''worldwide'')
         \<or> js_includes lowerSnippet (lit ''thousands of employees'')
      then lit ''Large / multinational (heuristic from snippet)''
      else if sizeCategory = lit ''Unknown''
      then lit ''Not stated '' @ en_dash @ lit '' likely small/medium (verify manually)''
      else sizeCategory)"

definition turnover_of :: "js_string \<Rightarrow> js_string" where
  "turnover_of lowerSnippet =
     (if js_includes lowerSnippet (lit ''million'') \<or> js_includes lowerSnippet (lit ''billion'')
         \<or> js_includes lowerSnippet (lit ''turnover'')
         \<or> js_includes lowerSnippet (lit ''revenue'')
      then lit ''Turnover / revenue mentioned in snippet '' @ en_dash
           @ lit '' check original page for figures.''
      else lit ''Not stated '' @ en_dash @ lit '' check company financials / About page.'')"

subsection \<open>Location\<close>

text \<open>
  The three patterns have the form \<open>/<literal>([A-Za-z\s-]+)/i\<close>, without the \<open>u\<close>
  flag, so they work on code units. A pattern is given by its literal text. Under \<open>i\<close> a
  code unit matches a letter of the literal when both have the same upper case, and a
  code unit above 127 is never identified with an ASCII one: the comparison is that of
  \<open>ascii_lower\<close>. The class is the ASCII letters, the white space of \<open>\s\<close> and the
  hyphen. \<open>match_at\<close> is the pattern anchored at the start of the text: the literal, then
  the longest run of class characters, which must not be empty. \<open>regex_match\<close> is
  \<open>text.match(pattern)\<close>: the leftmost position where the anchored match succeeds; its
  value is capture group 1, \<open>None\<close> for \<open>null\<close>.
\<close>

fun match_literal_ci :: "js_string \<Rightarrow> js_string \<Rightarrow> js_string option" where
  "match_literal_ci [] s = Some s"
| "match_literal_ci (p # ps) [] = None"
| "match_literal_ci (p # ps) (c # cs) =
     (if ascii_lower p = ascii_lower c then match_literal_ci ps cs else None)"

definition location_class :: "nat \<Rightarrow> bool" where
  \<comment> \<open>\<open>[A-Za-z\s-]\<close>\<close>
  "location_class c = (is_upper c \<or> is_lower c \<or> is_space c \<or> c = 0x2D)"

definition match_at :: "js_string \<Rightarrow> js_string \<Rightarrow> js_string option" where
  "match_at literal s =
     (case match_literal_ci literal s of
        None \<Rightarrow> None
      | Some rest \<Rightarrow>
          (let cap = takeWhile location_class rest in if cap = [] then None else Some cap))"

fun regex_match :: "js_string \<Rightarrow> js_string \<Rightarrow> js_string option" where
  "regex_match literal [] = match_at literal []"
| "regex_match literal (c # cs) =
     (case match_at literal (c # cs) of
        Some cap \<Rightarrow> Some cap
      | None \<Rightarrow> regex_match literal cs)"

definition locationPatterns :: "js_string list" where
  "locationPatterns = [lit ''based in '', lit ''headquartered in '', lit ''located in '']"

definition country_suffix :: "js_string option \<Rightarrow> js_string" where
  \<comment> \<open>\<open>country ? `, ${country}` : ""\<close>\<close>
  "country_suffix country =
     (case country of None \<Rightarrow> [] | Some c \<Rightarrow> if c \<noteq> [] then lit '', '' @ c else [])"

fun location_loop ::
  "js_string list \<Rightarrow> js_string \<Rightarrow> js_string \<Rightarrow> js_string option
     \<Rightarrow> js_string \<times> js_string \<Rightarrow> js_string \<times> js_string" where
  \<comment> \<open>the \<open>for\<close> loop; the pair is (\<open>location\<close>, \<open>locationDetail\<close>)\<close>
  "location_loop [] snippet title country st = st"
| "location_loop (pattern # rest) snippet title country st =
     (let m = (case regex_match pattern snippet of
                 Some g \<Rightarrow> Some g
               | None \<Rightarrow> regex_match pattern title)
      in case m of
           None \<Rightarrow> location_loop rest snippet title country st
         | Some m1 \<Rightarrow>
             if m1 \<noteq> []
             then (trim m1 @ country_suffix country,
                   lit ''Appears to be located in '' @ trim m1 @ lit '' (from snippet/title).'')
             else location_loop rest snippet title country st)"

definition location_of :: "js_string \<Rightarrow> js_string \<Rightarrow> js_string option \<Rightarrow> js_string \<times> js_string" where
  "location_of snippet title country =
     location_loop locationPatterns snippet title country
       (or_else country (lit ''Not specified''),
        lit ''Location not clearly stated in search snippet.'')"

subsection \<open>Keyword match\<close>

definition is_sep :: "nat \<Rightarrow> bool" where
  \<comment> \<open>\<open>[^a-z0-9]\<close>\<close>
  "is_sep c = (\<not> (is_lower c \<or> is_digit c))"

function split_on :: "(nat \<Rightarrow> bool) \<Rightarrow> js_string \<Rightarrow> js_string list" where
  \<comment> \<open>\<open>s.split(/[sep]+/)\<close>: the pieces between the maximal runs of separators, the empty
      pieces at both ends included\<close>
  "split_on sep s =
     (let piece = takeWhile (\<lambda>c. \<not> sep c) s;
          rest = dropWhile (\<lambda>c. \<not> sep c) s
      in if rest = [] then [piece] else piece # split_on sep (dropWhile sep rest))"
  by pat_completeness auto
termination
proof (relation "measure (\<lambda>(sep, s). length s)")
  show "wf (measure (\<lambda>(sep, s). length s))"
    by simp
next
  fix sep :: "nat \<Rightarrow> bool" and s piece rest :: js_string
  assume r: "rest = dropWhile (\<lambda>c. \<not> sep c) s" and ne: "rest \<noteq> []"
  from ne obtain c cs where cons: "rest = c # cs"
    by (cases rest) auto
  have "\<not> (\<lambda>c. \<not> sep c) (hd (dropWhile (\<lambda>c. \<not> sep c) s))"
    using ne unfolding r by (rule hd_dropWhile)
  then have "sep (hd rest)"
    unfolding r by simp
  then have "sep c"
    by (simp add: cons)
  then have "dropWhile sep rest = dropWhile sep cs"
    by (simp add: cons)
  then have "length (dropWhile sep rest) \<le> length cs"
    by (simp add: length_dropWhile_le)
  also have "length cs < length rest"
    by (simp add: cons)
  also have "length rest \<le> length s"
    by (simp add: r length_dropWhile_le)
  finally show "((sep, dropWhile sep rest), (sep, s)) \<in> measure (\<lambda>(sep, s). length s)"
    by simp
qed

declare split_on.simps [simp del]

definition requirementKeywords :: "case_table \<Rightarrow> js_string option \<Rightarrow> js_string list" where
  "requirementKeywords tbl requirements =
     filter (\<lambda>w. length w \<ge> 4)
       (split_on is_sep (toLowerCase tbl (or_else requirements [])))"

definition set_spread :: "js_string list \<Rightarrow> js_string list" where
  \<comment> \<open>\<open>[...new Set(ws)]\<close>: a set keeps insertion order and ignores a value it has\<close>
  "set_spread ws = fold (\<lambda>w acc. if w \<in> set acc then acc else acc @ [w]) ws []"

definition uniqueKeywords :: "case_table \<Rightarrow> js_string option \<Rightarrow> js_string list" where
  "uniqueKeywords tbl requirements =
     take 8 (set_spread (requirementKeywords tbl requirements))"

definition matchedKeywords ::
  "case_table \<Rightarrow> js_string option \<Rightarrow> js_string \<Rightarrow> js_string list" where
  "matchedKeywords tbl requirements lowerSnippet =
     filter (\<lambda>k. js_includes lowerSnippet k) (uniqueKeywords tbl requirements)"

text \<open>
  \<open>Math.round\<close> rounds to the nearest integer, a tie towards plus infinity. The source
  computes \<open>(matched / unique) * 100\<close> in double precision; the model uses rational
  numbers. With at most 8 keywords both give the same rounded result: see
  \<open>Math_round_stable\<close> below.
\<close>

definition Math_round :: "rat \<Rightarrow> int" where
  "Math_round x = \<lfloor>x + 1 / 2\<rfloor>"

definition matchScore_of :: "js_string list \<Rightarrow> js_string list \<Rightarrow> int" where
  "matchScore_of unique matched =
     (if length unique > 0
      then Math_round ((of_nat (length matched) / of_nat (length unique)) * 100)
      else 0)"

definition matchSummary_of :: "js_string list \<Rightarrow> js_string list \<Rightarrow> int \<Rightarrow> js_string" where
  "matchSummary_of unique matched score =
     (if length unique = 0
      then lit ''No specific keywords provided '' @ en_dash @ lit '' generic supplier match.''
      else if score = 0
      then lit ''Snippet does not clearly mention your key terms '' @ en_dash
           @ lit '' review manually for fit.''
      else lit ''Matches approx. '' @ string_of_int score @ lit ''% of your key terms: ''
           @ join (lit '', '') matched @ lit ''.'')"

subsection \<open>The mapper\<close>

record supplier =
  name :: js_string
  url :: js_string
  displayLink :: js_string
  countryHint :: js_string
  description :: js_string
  tags :: "js_string list"
  sizeCategory :: js_string
  employees :: js_string
  turnover :: js_string
  location :: js_string
  locationDetail :: js_string
  matchScore :: int
  matchSummary :: js_string

definition mapResultToSupplier ::
  "case_table \<Rightarrow> (js_string \<Rightarrow> js_string outcome) \<Rightarrow> raw_item \<Rightarrow> js_string option
     \<Rightarrow> js_string option \<Rightarrow> supplier" where
  "mapResultToSupplier tbl url_hostname item country requirements =
     (let u = url_of item;
          dl = displayLink_of url_hostname u;
          title = title_of url_hostname item;
          snippet = snippet_of item;
          lowerSnippet = toLowerCase tbl snippet;
          lowerReq = toLowerCase tbl (or_else requirements []);
          loc = location_of snippet title country;
          unique = uniqueKeywords tbl requirements;
          matched = matchedKeywords tbl requirements lowerSnippet;
          score = matchScore_of unique matched
      in \<lparr> name = title,
           url = u,
           displayLink = dl,
           countryHint = or_else country (lit ''Not specified''),
           description = snippet,
           tags = tags_of lowerSnippet lowerReq,
           sizeCategory = sizeCategory_of lowerSnippet,
           employees = employees_of lowerSnippet,
           turnover = turnover_of lowerSnippet,
           location = fst loc,
           locationDetail = snd loc,
           matchScore = score,
           matchSummary = matchSummary_of unique matched score \<rparr>)"

definition mapResultToSupplier_call ::
  "case_table \<Rightarrow> (js_string \<Rightarrow> js_string outcome) \<Rightarrow> raw_item \<Rightarrow> js_string option
     \<Rightarrow> json option \<Rightarrow> supplier outcome" where
  \<comment> \<open>the call with the \<open>requirements\<close> of the request body: \<open>toLowerCase\<close> on a truthy
      value that is not a string raises\<close>
  "mapResultToSupplier_call tbl url_hostname item country requirements =
     (case string_receiver requirements of
        Throws \<Rightarrow> Throws
      | Returns r \<Rightarrow> Returns (mapResultToSupplier tbl url_hostname item country (Some r)))"

section \<open>Request handler\<close>

text \<open>
  The handler reads the credential \<open>SERP_API_KEY\<close> of the process environment, the
  request body, and the outcome of the one \<open>fetch\<close> call. The provider is a function
  from the outbound request to what \<open>fetch\<close> does: it throws (the promise is rejected),
  or it yields a response with an HTTP status and a body. Reading the body either raises
  (\<open>json()\<close> throws, or what it returns is not an object from which the list of results
  can be taken) or gives the parsed data. The model returns the response together with
  the list of outbound requests issued. Everything from the reading of the request body
  to the response runs inside one \<open>try\<close>: whatever throws there ends in the \<open>catch\<close>,
  which answers 500. The query parameters are kept as a record; their encoding into the
  URL by \<open>URLSearchParams\<close> is not modelled, and neither is the logging to the console.
\<close>

record search_body =
  body_requirements :: "json option"
  body_country :: "js_string option"
  body_certifications :: "js_string option"
  body_maxResults :: "rat option"

definition empty_body :: search_body where
  \<comment> \<open>\<open>{}\<close>\<close>
  "empty_body = \<lparr> body_requirements = None, body_country = None,
                   body_certifications = None, body_maxResults = None \<rparr>"

definition body_of :: "search_body option \<Rightarrow> search_body" where
  \<comment> \<open>\<open>req.body || {}\<close>\<close>
  "body_of req_body = (case req_body of None \<Rightarrow> empty_body | Some b \<Rightarrow> b)"

record outbound_request =
  param_engine :: js_string
  param_q :: js_string
  param_api_key :: js_string
  param_num :: rat

record provider_data =
  organic_results :: "raw_item list option"

datatype fetch_result = FetchThrows | FetchResponse nat "provider_data outcome"

datatype response_body = ErrorBody js_string | SupplierList "supplier list"

record http_response =
  res_status :: nat
  res_body :: response_body

definition response_ok :: "nat \<Rightarrow> bool" where
  \<comment> \<open>\<open>response.ok\<close> of node-fetch: the status is in the range 200 to 299\<close>
  "response_ok st = (200 \<le> st \<and> st < 300)"

definition effective_num :: "rat option \<Rightarrow> rat" where
  \<comment> \<open>\<open>maxResults && maxResults > 0 ? Math.min(maxResults, 20) : 10\<close>\<close>
  "effective_num maxResults =
     (case maxResults of
        None \<Rightarrow> 10
      | Some n \<Rightarrow> if n \<noteq> 0 \<and> n > 0 then min n 20 else 10)"

definition slice0 :: "rat \<Rightarrow> 'a list \<Rightarrow> 'a list" where
  \<comment> \<open>\<open>xs.slice(0, k)\<close>: \<open>k\<close> is truncated towards zero; a negative end counts from the
      end of the list\<close>
  "slice0 k xs =
     (let len = int (length xs);
          relativeEnd = (if k < 0 then \<lceil>k\<rceil> else \<lfloor>k\<rfloor>);
          final = (if relativeEnd < 0 then max (len + relativeEnd) 0 else min relativeEnd len)
      in take (nat final) xs)"

definition results_of :: "provider_data \<Rightarrow> raw_item list" where
  \<comment> \<open>\<open>data.organic_results || []\<close>\<close>
  "results_of data = (case organic_results data of None \<Rightarrow> [] | Some rs \<Rightarrow> rs)"

definition search_params :: "js_string \<Rightarrow> js_string \<Rightarrow> rat \<Rightarrow> outbound_request" where
  "search_params key query num =
     \<lparr> param_engine = lit ''google'', param_q = query, param_api_key = key,
       param_num = num \<rparr>"

fun map_outcome :: "('a \<Rightarrow> 'b outcome) \<Rightarrow> 'a list \<Rightarrow> 'b list outcome" where
  \<comment> \<open>\<open>xs.map(f)\<close> where \<open>f\<close> may throw: the first exception leaves the \<open>map\<close>\<close>
  "map_outcome f [] = Returns []"
| "map_outcome f (x # xs) =
     (case f x of
        Throws \<Rightarrow> Throws
      | Returns y \<Rightarrow>
          (case map_outcome f xs of Throws \<Rightarrow> Throws | Returns ys \<Rightarrow> Returns (y # ys)))"

definition search_suppliers ::
  "case_table \<Rightarrow> js_string option \<Rightarrow> (js_string \<Rightarrow> js_string outcome)
     \<Rightarrow> (outbound_request \<Rightarrow> fetch_result) \<Rightarrow> search_body option
     \<Rightarrow> http_response \<times> outbound_request list" where
  "search_suppliers tbl SERP_API_KEY url_hostname fetch req_body =
     (let b = body_of req_body
      in case buildQuery (body_requirements b) (body_country b) (body_certifications b) of
           Throws \<Rightarrow>
             (\<lparr> res_status = 500,
                res_body = ErrorBody (lit ''Internal server error'') \<rparr>, [])
         | Returns query \<Rightarrow>
            (let num = effective_num (body_maxResults b)
             in case SERP_API_KEY of
                  None \<Rightarrow>
                    (\<lparr> res_status = 500,
                       res_body = ErrorBody (lit ''SerpAPI key not configured on server.'') \<rparr>,
                     [])
                | Some key \<Rightarrow>
                    if key = []
                    then (\<lparr> res_status = 500,
                             res_body =
                               ErrorBody (lit ''SerpAPI key not configured on server.'') \<rparr>,
                          [])
                    else
                      (let params = search_params key query num
                       in case fetch params of
                            FetchThrows \<Rightarrow>
                              (\<lparr> res_status = 500,
                                 res_body = ErrorBody (lit ''Internal server error'') \<rparr>,
                               [params])
                          | FetchResponse st json \<Rightarrow>
                              if \<not> response_ok st
                              then (\<lparr> res_status = 502,
                                       res_body = ErrorBody (lit ''SerpAPI HTTP error ''
                                                             @ string_of_nat st) \<rparr>,
                                    [params])
                              else
                                (case json of
                                   Throws \<Rightarrow>
                                     (\<lparr> res_status = 500,
                                        res_body = ErrorBody (lit ''Internal server error'') \<rparr>,
                                      [params])
                                 | Returns data \<Rightarrow>
                                     (let results = results_of data
                                      in case map_outcome
                                                (\<lambda>item. mapResultToSupplier_call tbl url_hostname
                                                           item (body_country b)
                                                           (body_requirements b))
                                                (slice0 num
                                                   (filter (\<lambda>r. truthy (item_link r)) results)) of
                                           Throws \<Rightarrow>
                                             (\<lparr> res_status = 500,
                                                res_body =
                                                  ErrorBody (lit ''Internal server error'') \<rparr>,
                                              [params])
                                         | Returns suppliers \<Rightarrow>
                                             (\<lparr> res_status = 200,
                                                res_body = SupplierList suppliers \<rparr>,
                                              [params]))))))"

section \<open>The operations as the specification words them\<close>

text \<open>
  The definitions of this section follow the words of the specification and do not use
  the tokeniser, the pattern matcher or the \<open>trim\<close> of the program model. They share
  with it the tests on single characters and \<open>toLowerCase\<close>, which is the operation of
  the runtime that the specification names.
\<close>

subsection \<open>Text without the white space at its ends\<close>

definition spec_trim :: "js_string \<Rightarrow> js_string" where
  \<comment> \<open>drop the leading white space, then keep all but the trailing white space\<close>
  "spec_trim s =
     (let leading = length (takeWhile is_space s);
          trailing = length (takeWhile is_space (rev s))
      in take (length s - leading - trailing) (drop leading s))"

subsection \<open>The query (section 4.1)\<close>

definition spec_base :: "js_string \<Rightarrow> js_string" where
  "spec_base req =
     (if list_all is_space req then lit ''industrial supplier'' else spec_trim req)"

definition spec_buildQuery :: "js_string \<Rightarrow> js_string option \<Rightarrow> js_string option \<Rightarrow> js_string" where
  "spec_buildQuery req country certifications =
     spec_base req
     @ (if truthy certifications then lit '' '' @ or_else certifications [] else [])
     @ lit '' (supplier OR manufacturer OR vendor OR B2B)''
     @ (if truthy country then lit '' in '' @ or_else country [] else [])"

subsection \<open>The keyword match (section 4.2, step 7)\<close>

text \<open>
  The requirements in lower case are split on every run of characters that are not
  alphanumeric: the tokens are the maximal runs of letters and digits. Those of length
  at least 4 are kept, each once, in the order of their first occurrence; the first 8 of
  them are the keywords. The matched keywords are those that are a substring of the
  snippet in lower case, and the score is 100 times their share, rounded, or 0 without
  keywords.
\<close>

definition spec_alnum :: "nat \<Rightarrow> bool" where
  "spec_alnum c = (is_upper c \<or> is_lower c \<or> is_digit c)"

fun spec_runs :: "js_string \<Rightarrow> js_string \<Rightarrow> js_string list" where
  \<comment> \<open>the maximal runs of alphanumeric characters; the first argument is the run read
      so far\<close>
  "spec_runs cur [] = (if cur = [] then [] else [cur])"
| "spec_runs cur (c # cs) =
     (if spec_alnum c then spec_runs (cur @ [c]) cs
      else (if cur = [] then [] else [cur]) @ spec_runs [] cs)"

fun spec_dedup :: "js_string list \<Rightarrow> js_string list" where
  "spec_dedup [] = []"
| "spec_dedup (w # ws) = w # spec_dedup (filter (\<lambda>v. v \<noteq> w) ws)"

definition spec_keywords :: "case_table \<Rightarrow> js_string \<Rightarrow> js_string list" where
  "spec_keywords tbl req =
     take 8 (spec_dedup (filter (\<lambda>t. 4 \<le> length t) (spec_runs [] (toLowerCase tbl req))))"

definition spec_matched :: "case_table \<Rightarrow> js_string \<Rightarrow> js_string \<Rightarrow> js_string list" where
  "spec_matched tbl req snip =
     filter (\<lambda>k. sublist k (toLowerCase tbl snip)) (spec_keywords tbl req)"

definition spec_matchScore :: "case_table \<Rightarrow> js_string \<Rightarrow> js_string \<Rightarrow> int" where
  "spec_matchScore tbl req snip =
     (if spec_keywords tbl req = [] then 0
      else round (100 * rat_of_nat (length (spec_matched tbl req snip))
                  / rat_of_nat (length (spec_keywords tbl req))))"

subsection \<open>The location (section 4.2, step 6)\<close>

text \<open>
  A pattern matches at a position of a text when the literal stands there, in either
  case, and is followed by at least one letter, space or hyphen; the capture is the
  whole run of such characters. The match of a pattern in a text is the one at the first
  position that has one. The six attempts are made in their order, each pattern against
  the snippet and then the title; the first capture found decides. The location is built
  from the capture without the white space at its ends, as the source does.
\<close>

definition spec_capture_at :: "js_string \<Rightarrow> js_string \<Rightarrow> nat \<Rightarrow> js_string option" where
  "spec_capture_at literal text i =
     (let found = take (length literal) (drop i text);
          run = takeWhile location_class (drop (i + length literal) text)
      in if length found = length literal
            \<and> map ascii_lower found = map ascii_lower literal \<and> run \<noteq> []
         then Some run else None)"

fun spec_capture_from :: "js_string \<Rightarrow> js_string \<Rightarrow> nat \<Rightarrow> nat \<Rightarrow> js_string option" where
  \<comment> \<open>the first capture at the positions \<open>i\<close>, \<open>i + 1\<close>, ..., \<open>i + n\<close>\<close>
  "spec_capture_from literal text i 0 = spec_capture_at literal text i"
| "spec_capture_from literal text i (Suc n) =
     (case spec_capture_at literal text i of
        Some cap \<Rightarrow> Some cap
      | None \<Rightarrow> spec_capture_from literal text (Suc i) n)"

definition spec_capture :: "js_string \<Rightarrow> js_string \<Rightarrow> js_string option" where
  "spec_capture literal text = spec_capture_from literal text 0 (length text)"

definition spec_attempts :: "js_string \<Rightarrow> js_string \<Rightarrow> (js_string \<times> js_string) list" where
  "spec_attempts snip title =
     [(lit ''based in '', snip), (lit ''based in '', title),
      (lit ''headquartered in '', snip), (lit ''headquartered in '', title),
      (lit ''located in '', snip), (lit ''located in '', title)]"

fun first_capture :: "(js_string \<times> js_string) list \<Rightarrow> js_string option" where
  "first_capture [] = None"
| "first_capture ((literal, text) # rest) =
     (case spec_capture literal text of
        Some cap \<Rightarrow> Some cap
      | None \<Rightarrow> first_capture rest)"

definition spec_location ::
  "js_string \<Rightarrow> js_string \<Rightarrow> js_string option \<Rightarrow> js_string \<times> js_string" where
  "spec_location snip title country =
     (case first_capture (spec_attempts snip title) of
        None \<Rightarrow> (or_else country (lit ''Not specified''),
                 lit ''Location not clearly stated in search snippet.'')
      | Some cap \<Rightarrow>
          (spec_trim cap @ (if truthy country then lit '', '' @ or_else country [] else []),
           lit ''Appears to be located in '' @ spec_trim cap @ lit '' (from snippet/title).''))"

subsection \<open>The status in the message of the gateway error\<close>



section \<open>Sample inputs for the examples\<close>

definition sample_table :: case_table where
  \<comment> \<open>a stand-in for the part of the case table above ASCII: it folds the capital
      letters of Latin-1 and leaves every other code unit as it is\<close>
  "sample_table pre u post =
     (if 0xC0 \<le> u \<and> u \<le> 0xDE \<and> u \<noteq> 0xD7 then [u + 32 - 128] else [u - 128])"

definition sample_hostname :: "js_string \<Rightarrow> js_string outcome" where
  \<comment> \<open>a stand-in for the URL parser: it knows one URL and throws on every other text\<close>
  "sample_hostname u =
     (if u = lit ''https://acme.example.com/x'' then Returns (lit ''acme.example.com'')
      else Throws)"

definition sample_data :: provider_data where
  "sample_data =
     \<lparr> organic_results = Some
         [\<lparr> item_link = Some (lit ''https://acme.example.com/x''), item_url = None,
            item_title = Some (lit ''Acme Plastics''),
            item_snippet =
              Some (lit ''ISO certified plastic manufacturer, family-owned, based in Ohio''),
            item_description = None \<rparr>,
          \<lparr> item_link = None, item_url = Some (lit ''https://nolink.example.com''),
            item_title = Some (lit ''No link''), item_snippet = None,
            item_description = None \<rparr>,
          \<lparr> item_link = Some (lit ''not a url''), item_url = None, item_title = None,
            item_snippet = None, item_description = Some (lit ''Worldwide vendor'') \<rparr>] \<rparr>"

definition provider_ok :: "outbound_request \<Rightarrow> fetch_result" where
  "provider_ok req = FetchResponse 200 (Returns sample_data)"



definition sample_body :: search_body where
  "sample_body = \<lparr> body_requirements = Some (JStr (lit ''plastic prototype parts'')),
                    body_country = Some (lit ''USA''), body_certifications = None,
                    body_maxResults = Some 1 \<rparr>"


section \<open>Facts about strings\<close>

lemma dropWhile_all_Nil:
  assumes "\<forall>x \<in> set (dropWhile P s). P x"
  shows "dropWhile P s = []"
proof (rule ccontr)
  assume ne: "dropWhile P s \<noteq> []"
  then have "\<not> P (hd (dropWhile P s))"
    by (rule hd_dropWhile)
  moreover have "hd (dropWhile P s) \<in> set (dropWhile P s)"
    using ne by simp
  ultimately show False
    using assms by blast
qed

lemma trim_empty_iff: "trim s = [] \<longleftrightarrow> list_all is_space s"
proof -
  have a: "trim s = [] \<longleftrightarrow> (\<forall>x \<in> set (dropWhile is_space s). is_space x)"
    by (simp add: trim_def)
  have b: "(\<forall>x \<in> set (dropWhile is_space s). is_space x) \<longleftrightarrow> dropWhile is_space s = []"
  proof
    assume "\<forall>x \<in> set (dropWhile is_space s). is_space x"
    then show "dropWhile is_space s = []"
      by (rule dropWhile_all_Nil)
  next
    assume e: "dropWhile is_space s = []"
    show "\<forall>x \<in> set (dropWhile is_space s). is_space x"
      unfolding e by simp
  qed
  have c: "dropWhile is_space s = [] \<longleftrightarrow> list_all is_space s"
    by (simp add: list_all_iff)
  show ?thesis
    unfolding a b c ..
qed

lemma rev_dropWhile_rev_take:
  "rev (dropWhile P (rev r)) = take (length r - length (takeWhile P (rev r))) r"
proof -
  have "rev r = takeWhile P (rev r) @ dropWhile P (rev r)"
    by simp
  then have "r = rev (dropWhile P (rev r)) @ rev (takeWhile P (rev r))"
    by (metis rev_append rev_rev_ident)
  moreover have "length (rev (dropWhile P (rev r))) = length r - length (takeWhile P (rev r))"
    by (metis add_diff_cancel_left' length_append length_rev takeWhile_dropWhile_id)
  ultimately show ?thesis
    by (metis append_eq_conv_conj)
qed

lemma trim_spec: "trim s = spec_trim s"
proof -
  define a where "a = takeWhile is_space s"
  define r where "r = dropWhile is_space s"
  have s: "s = a @ r"
    by (simp add: a_def r_def)
  have la: "length (takeWhile is_space s) = length a"
    by (simp add: a_def)
  have dr: "drop (length a) s = r"
    by (simp add: s)
  have tr: "trim s = take (length r - length (takeWhile is_space (rev r))) r"
    unfolding trim_def r_def [symmetric] by (rule rev_dropWhile_rev_take)
  show ?thesis
  proof (cases "r = []")
    case True
    then show ?thesis
      using tr by (simp add: spec_trim_def Let_def la dr)
  next
    case False
    then have "\<not> is_space (hd r)"
      unfolding r_def by (rule hd_dropWhile)
    moreover have "hd r \<in> set (rev r)"
      using False by simp
    ultimately have "takeWhile is_space (rev r @ rev a) = takeWhile is_space (rev r)"
      by (intro takeWhile_append1) auto
    then have tw: "takeWhile is_space (rev s) = takeWhile is_space (rev r)"
      by (simp add: s)
    have "length s - length a - length (takeWhile is_space (rev r))
            = length r - length (takeWhile is_space (rev r))"
      by (simp add: s)
    then show ?thesis
      using tr by (simp add: spec_trim_def Let_def la dr tw)
  qed
qed

lemma js_includes_sublist: "js_includes hay needle \<longleftrightarrow> sublist needle hay"
  by (induction hay) (auto simp: sublist_Cons_right)

lemma ascii_lower_not_upper: "\<not> is_upper (ascii_lower u)"
  by (simp add: ascii_lower_def is_upper_def)

lemma lower_unit_not_upper: "c \<in> set (lower_unit tbl pre u post) \<Longrightarrow> \<not> is_upper c"
proof -
  assume c: "c \<in> set (lower_unit tbl pre u post)"
  consider "c = ascii_lower u" | "c = 0x6B" | "c = 0x69" | "c = 0x307" | "128 \<le> c"
    using c by (auto simp: lower_unit_def split: if_splits)
  then show ?thesis
  proof cases
    case 1
    then show ?thesis by (simp add: ascii_lower_not_upper)
  qed (simp_all add: is_upper_def)
qed

lemma lower_from_not_upper: "c \<in> set (lower_from tbl pre s) \<Longrightarrow> \<not> is_upper c"
  by (induction s arbitrary: pre) (auto dest: lower_unit_not_upper)

lemma toLowerCase_not_upper: "c \<in> set (toLowerCase tbl s) \<Longrightarrow> \<not> is_upper c"
  unfolding toLowerCase_def by (rule lower_from_not_upper)

lemma split_on_unfold:
  "split_on sep s =
     (if dropWhile (\<lambda>c. \<not> sep c) s = [] then [takeWhile (\<lambda>c. \<not> sep c) s]
      else takeWhile (\<lambda>c. \<not> sep c) s
           # split_on sep (dropWhile sep (dropWhile (\<lambda>c. \<not> sep c) s)))"
  by (subst split_on.simps) (simp only: Let_def)

lemma split_on_no_sep:
  assumes "\<forall>c \<in> set cur. \<not> sep c"
  shows "split_on sep cur = [cur]"
proof -
  have "dropWhile (\<lambda>c. \<not> sep c) cur = []" and "takeWhile (\<lambda>c. \<not> sep c) cur = cur"
    using assms by simp_all
  then show ?thesis
    by (simp only: split_on_unfold [of sep cur] refl if_True)
qed

lemma split_on_run_sep:
  assumes "\<forall>c \<in> set cur. \<not> sep c" and "sep c"
  shows "split_on sep (cur @ c # cs) = cur # split_on sep (dropWhile sep cs)"
proof -
  have tw: "takeWhile (\<lambda>c. \<not> sep c) (cur @ c # cs) = cur"
    using assms by (simp add: takeWhile_append2)
  have dw: "dropWhile (\<lambda>c. \<not> sep c) (cur @ c # cs) = c # cs"
    using assms by (simp add: dropWhile_append2)
  have d2: "dropWhile sep (c # cs) = dropWhile sep cs"
    using assms(2) by simp
  have ne: "c # cs \<noteq> []"
    by simp
  show ?thesis
    by (simp only: split_on_unfold [of sep "cur @ c # cs"] tw dw d2 list.distinct if_False)
qed

lemma split_on_skip_seps:
  "filter (\<lambda>w. w \<noteq> []) (split_on sep (dropWhile sep cs))
     = filter (\<lambda>w. w \<noteq> []) (split_on sep cs)"
proof (cases cs)
  case Nil
  then show ?thesis by simp
next
  case (Cons d ds)
  show ?thesis
  proof (cases "sep d")
    case True
    have "split_on sep ([] @ d # ds) = [] # split_on sep (dropWhile sep ds)"
      using True by (intro split_on_run_sep) simp_all
    then show ?thesis
      using True Cons by simp
  next
    case False
    then show ?thesis
      using Cons by simp
  qed
qed

lemma spec_runs_split_on:
  assumes "\<forall>c \<in> set cur. \<not> sep c" and "\<forall>c \<in> set s. sep c = (\<not> spec_alnum c)"
  shows "spec_runs cur s = filter (\<lambda>w. w \<noteq> []) (split_on sep (cur @ s))"
  using assms
proof (induction s arbitrary: cur)
  case Nil
  then show ?case
    by (simp add: split_on_no_sep)
next
  case (Cons c cs)
  show ?case
  proof (cases "spec_alnum c")
    case True
    then have "\<not> sep c"
      using Cons.prems(2) by simp
    then have "\<forall>x \<in> set (cur @ [c]). \<not> sep x"
      using Cons.prems(1) by simp
    moreover have "\<forall>x \<in> set cs. sep x = (\<not> spec_alnum x)"
      using Cons.prems(2) by simp
    ultimately have "spec_runs (cur @ [c]) cs
                       = filter (\<lambda>w. w \<noteq> []) (split_on sep ((cur @ [c]) @ cs))"
      by (rule Cons.IH)
    then show ?thesis
      using True by simp
  next
    case False
    then have sc: "sep c"
      using Cons.prems(2) by simp
    have rest: "\<forall>x \<in> set cs. sep x = (\<not> spec_alnum x)"
      using Cons.prems(2) by simp
    have "spec_runs [] cs = filter (\<lambda>w. w \<noteq> []) (split_on sep ([] @ cs))"
      by (rule Cons.IH) (simp_all add: rest)
    then have ih: "spec_runs [] cs = filter (\<lambda>w. w \<noteq> []) (split_on sep (dropWhile sep cs))"
      by (simp add: split_on_skip_seps)
    have "split_on sep (cur @ c # cs) = cur # split_on sep (dropWhile sep cs)"
      using Cons.prems(1) sc by (rule split_on_run_sep)
    then show ?thesis
      using False ih by simp
  qed
qed

lemma keywords_tokens:
  "filter (\<lambda>w. 4 \<le> length w) (split_on is_sep (toLowerCase tbl req))
     = filter (\<lambda>w. 4 \<le> length w) (spec_runs [] (toLowerCase tbl req))"
proof -
  have "\<forall>c \<in> set (toLowerCase tbl req). is_sep c = (\<not> spec_alnum c)"
    by (auto simp: is_sep_def spec_alnum_def dest: toLowerCase_not_upper)
  then have "spec_runs [] (toLowerCase tbl req)
               = filter (\<lambda>w. w \<noteq> []) (split_on is_sep ([] @ toLowerCase tbl req))"
    by (intro spec_runs_split_on) simp_all
  moreover have "filter (\<lambda>w. 4 \<le> length w) (filter (\<lambda>w. w \<noteq> []) ws)
                   = filter (\<lambda>w. 4 \<le> length w) ws" for ws :: "js_string list"
    by (induction ws) auto
  ultimately show ?thesis
    by simp
qed







section \<open>Facts about the result mapper\<close>

lemma map_url: "url (mapResultToSupplier tbl h item c r) = url_of item"
  by (simp add: mapResultToSupplier_def Let_def)

lemma map_displayLink:
  "displayLink (mapResultToSupplier tbl h item c r) = displayLink_of h (url_of item)"
  by (simp add: mapResultToSupplier_def Let_def)

lemma map_tags:
  "tags (mapResultToSupplier tbl h item c r)
     = tags_of (toLowerCase tbl (snippet_of item)) (toLowerCase tbl (or_else r []))"
  by (simp add: mapResultToSupplier_def Let_def)

lemma map_sizeCategory:
  "sizeCategory (mapResultToSupplier tbl h item c r)
     = sizeCategory_of (toLowerCase tbl (snippet_of item))"
  by (simp add: mapResultToSupplier_def Let_def)

lemma map_employees:
  "employees (mapResultToSupplier tbl h item c r)
     = employees_of (toLowerCase tbl (snippet_of item))"
  by (simp add: mapResultToSupplier_def Let_def)

lemma map_location:
  "(location (mapResultToSupplier tbl h item c r),
    locationDetail (mapResultToSupplier tbl h item c r))
     = location_of (snippet_of item) (title_of h item) c"
  by (simp add: mapResultToSupplier_def Let_def)

lemma map_matchScore:
  "matchScore (mapResultToSupplier tbl h item c r)
     = matchScore_of (uniqueKeywords tbl r)
         (matchedKeywords tbl r (toLowerCase tbl (snippet_of item)))"
  by (simp add: mapResultToSupplier_def Let_def)


subsection \<open>Keywords\<close>

lemma set_spread_fold:
  "fold (\<lambda>w acc. if w \<in> set acc then acc else acc @ [w]) ws acc
     = acc @ spec_dedup (filter (\<lambda>w. w \<notin> set acc) ws)"
proof (induction ws arbitrary: acc)
  case Nil
  then show ?case by simp
next
  case (Cons w ws)
  show ?case
  proof (cases "w \<in> set acc")
    case True
    then show ?thesis by (simp add: Cons.IH)
  next
    case False
    have "filter (\<lambda>v. v \<notin> set (acc @ [w])) ws
            = filter (\<lambda>v. v \<noteq> w) (filter (\<lambda>v. v \<notin> set acc) ws)"
      by (induction ws) auto
    then show ?thesis
      using False by (simp add: Cons.IH)
  qed
qed

lemma set_spread_dedup: "set_spread ws = spec_dedup ws"
  by (simp add: set_spread_def set_spread_fold)

lemma uniqueKeywords_spec: "uniqueKeywords tbl r = spec_keywords tbl (or_else r [])"
  by (simp add: uniqueKeywords_def spec_keywords_def requirementKeywords_def set_spread_dedup
        keywords_tokens)

lemma matchedKeywords_spec:
  "matchedKeywords tbl r (toLowerCase tbl snip) = spec_matched tbl (or_else r []) snip"
  by (simp add: matchedKeywords_def spec_matched_def uniqueKeywords_spec js_includes_sublist)

lemma matchScore_of_spec:
  "matchScore_of (uniqueKeywords tbl r) (matchedKeywords tbl r (toLowerCase tbl snip))
     = spec_matchScore tbl (or_else r []) snip"
  by (simp add: matchScore_of_def spec_matchScore_def uniqueKeywords_spec matchedKeywords_spec
        Math_round_def round_def mult.commute)




text \<open>
  The double arithmetic of the source and the exact arithmetic of the model round to the
  same score. With 1 to 7 keywords the exact quotient times 100, plus one half, lies at
  least 1/16 above an integer and at least 1/16 below the next, so any value within 1/16
  of it has the same rounding; the error of the two double operations is far smaller.
  With 8 keywords the division by a power of two and the product are exact.
\<close>

lemma no_tie_below_8:
  "\<forall>u \<in> set [1..<8]. \<forall>m \<in> set [0..<Suc u].
     rat_of_int \<lfloor>rat_of_nat m / rat_of_nat u * 100 + 1 / 2\<rfloor> + 1 / 16
       \<le> rat_of_nat m / rat_of_nat u * 100 + 1 / 2
     \<and> rat_of_nat m / rat_of_nat u * 100 + 1 / 2
       \<le> rat_of_int \<lfloor>rat_of_nat m / rat_of_nat u * 100 + 1 / 2\<rfloor> + 15 / 16"
  by code_simp

lemma Math_round_stable:
  fixes y :: rat
  assumes u: "0 < u" "u \<le> 8" and m: "m \<le> u"
    and near: "\<bar>y - rat_of_nat m / rat_of_nat u * 100\<bar> < 1 / 16"
    and exact: "u = 8 \<Longrightarrow> y = rat_of_nat m / rat_of_nat u * 100"
  shows "Math_round y = Math_round (rat_of_nat m / rat_of_nat u * 100)"
proof (cases "u = 8")
  case True
  then have "y = rat_of_nat m / rat_of_nat u * 100"
    by (rule exact)
  then show ?thesis
    by (simp only:)
next
  case False
  define x where "x = rat_of_nat m / rat_of_nat u * 100"
  have "u \<in> set [1..<8]" and "m \<in> set [0..<Suc u]"
    using u m False by auto
  then have b: "rat_of_int \<lfloor>x + 1 / 2\<rfloor> + 1 / 16 \<le> x + 1 / 2"
      "x + 1 / 2 \<le> rat_of_int \<lfloor>x + 1 / 2\<rfloor> + 15 / 16"
    using no_tie_below_8 unfolding x_def by blast+
  have n: "\<bar>y - x\<bar> < 1 / 16"
    using near by (simp only: x_def)
  have "\<lfloor>y + 1 / 2\<rfloor> = \<lfloor>x + 1 / 2\<rfloor>"
  proof (rule floor_unique)
    show "rat_of_int \<lfloor>x + 1 / 2\<rfloor> \<le> y + 1 / 2"
      using b(1) n by linarith
    show "y + 1 / 2 < rat_of_int \<lfloor>x + 1 / 2\<rfloor> + 1"
      using b(2) n by linarith
  qed
  then show ?thesis
    by (simp only: Math_round_def x_def)
qed



subsection \<open>Location\<close>

lemma match_literal_ci_take:
  "match_literal_ci literal s =
     (if length (take (length literal) s) = length literal
         \<and> map ascii_lower (take (length literal) s) = map ascii_lower literal
      then Some (drop (length literal) s) else None)"
proof (induction literal arbitrary: s)
  case Nil
  then show ?case by simp
next
  case (Cons p ps)
  show ?case
  proof (cases s)
    case Nil
    then show ?thesis by simp
  next
    case (Cons c cs)
    then show ?thesis
      by (simp add: Cons.IH)
  qed
qed

lemma match_at_capture_at: "match_at literal s = spec_capture_at literal s 0"
  by (simp add: match_at_def spec_capture_at_def match_literal_ci_take Let_def)

lemma spec_capture_at_shift:
  "spec_capture_at literal (p @ s) (length p) = spec_capture_at literal s 0"
  by (simp add: spec_capture_at_def)

lemma regex_match_capture_from:
  "regex_match literal s = spec_capture_from literal (p @ s) (length p) (length s)"
proof (induction s arbitrary: p)
  case Nil
  have "spec_capture_at literal (p @ []) (length p) = spec_capture_at literal [] 0"
    by (rule spec_capture_at_shift)
  then show ?case
    by (simp add: match_at_capture_at)
next
  case (Cons c cs)
  have here: "spec_capture_at literal (p @ c # cs) (length p) = match_at literal (c # cs)"
    unfolding match_at_capture_at by (rule spec_capture_at_shift)
  have "regex_match literal cs
          = spec_capture_from literal ((p @ [c]) @ cs) (length (p @ [c])) (length cs)"
    by (rule Cons.IH)
  then have rest: "regex_match literal cs
                     = spec_capture_from literal (p @ c # cs) (Suc (length p)) (length cs)"
    by simp
  show ?case
    by (cases "match_at literal (c # cs)") (simp_all add: here rest)
qed

lemma regex_match_spec: "regex_match literal s = spec_capture literal s"
  using regex_match_capture_from [of literal s "[]"] by (simp add: spec_capture_def)

lemma match_at_nonempty: "match_at literal s = Some cap \<Longrightarrow> cap \<noteq> []"
  by (auto simp: match_at_def Let_def split: option.splits if_splits)

lemma regex_match_nonempty: "regex_match literal s = Some cap \<Longrightarrow> cap \<noteq> []"
  by (induction s) (auto split: option.splits dest: match_at_nonempty)

lemma country_suffix_truthy:
  "country_suffix c = (if truthy c then lit '', '' @ or_else c [] else [])"
  by (simp add: country_suffix_def truthy_def or_else_def split: option.splits)

lemma location_step:
  "location_loop (p # ps) snip title c st =
     (case first_capture [(p, snip), (p, title)] of
        None \<Rightarrow> location_loop ps snip title c st
      | Some cap \<Rightarrow>
          (trim cap @ country_suffix c,
           lit ''Appears to be located in '' @ trim cap @ lit '' (from snippet/title).''))"
proof (cases "regex_match p snip")
  case None
  note n = this
  show ?thesis
  proof (cases "regex_match p title")
    case None
    with n show ?thesis by (simp add: regex_match_spec [symmetric])
  next
    case (Some cap)
    then have "cap \<noteq> []" by (rule regex_match_nonempty)
    with n Some show ?thesis by (simp add: regex_match_spec [symmetric])
  qed
next
  case (Some cap)
  then have "cap \<noteq> []" by (rule regex_match_nonempty)
  with Some show ?thesis by (simp add: regex_match_spec [symmetric])
qed

lemma first_capture_append:
  "first_capture (xs @ ys) =
     (case first_capture xs of None \<Rightarrow> first_capture ys | Some cap \<Rightarrow> Some cap)"
  by (induction xs) (auto split: option.splits)

lemma location_loop_first_capture:
  "location_loop ps snip title c st =
     (case first_capture (concat (map (\<lambda>p. [(p, snip), (p, title)]) ps)) of
        None \<Rightarrow> st
      | Some cap \<Rightarrow>
          (trim cap @ country_suffix c,
           lit ''Appears to be located in '' @ trim cap @ lit '' (from snippet/title).''))"
proof (induction ps)
  case Nil
  show ?case
    by (simp only: location_loop.simps list.map concat.simps first_capture.simps option.case)
next
  case (Cons p ps)
  have e: "concat (map (\<lambda>p. [(p, snip), (p, title)]) (p # ps))
             = [(p, snip), (p, title)] @ concat (map (\<lambda>p. [(p, snip), (p, title)]) ps)"
    by (simp only: list.map concat.simps)
  show ?case
  proof (cases "first_capture [(p, snip), (p, title)]")
    case None
    then show ?thesis
      by (simp only: e first_capture_append location_step Cons.IH option.case)
  next
    case (Some cap)
    then show ?thesis
      by (simp only: e first_capture_append location_step option.case)
  qed
qed

lemma attempts_eq:
  "concat (map (\<lambda>p. [(p, snip), (p, title)]) locationPatterns) = spec_attempts snip title"
  by (simp add: locationPatterns_def spec_attempts_def)

lemma spec_location_alt:
  "spec_location snip title c =
     (case first_capture (spec_attempts snip title) of
        None \<Rightarrow> (or_else c (lit ''Not specified''),
                 lit ''Location not clearly stated in search snippet.'')
      | Some cap \<Rightarrow>
          (trim cap @ country_suffix c,
           lit ''Appears to be located in '' @ trim cap @ lit '' (from snippet/title).''))"
  unfolding spec_location_def country_suffix_truthy trim_spec ..

lemma location_of_spec: "location_of snip title c = spec_location snip title c"
  unfolding location_of_def spec_location_alt location_loop_first_capture attempts_eq ..

section \<open>Facts about the query builder and the request handler\<close>


lemma string_receiver_text:
  "string_receiver (Some (JStr s)) = Returns s" "string_receiver None = Returns []"
  by (simp_all add: string_receiver_def)

lemma buildQuery_throws: "string_receiver r = Throws \<Longrightarrow> buildQuery r c cert = Throws"
  by (simp add: buildQuery_def)

lemma buildQuery_returns:
  assumes "string_receiver r = Returns req"
  shows "buildQuery r c cert = Returns (spec_buildQuery req c cert)"
proof -
  have base: "(if trim req = [] then lit ''industrial supplier'' else trim req) = spec_base req"
    by (simp add: spec_base_def trim_empty_iff trim_spec [symmetric])
  show ?thesis
    unfolding buildQuery_def spec_buildQuery_def Let_def assms outcome.case base
    by (cases c; cases cert) (simp_all add: truthy_def or_else_def lit_def)
qed

lemma buildQuery_cases:
  obtains (throws) "string_receiver r = Throws" "buildQuery r c cert = Throws"
  | (returns) req where "string_receiver r = Returns req"
      "buildQuery r c cert = Returns (spec_buildQuery req c cert)"
proof (cases "string_receiver r")
  case (Returns req)
  then show ?thesis
    using buildQuery_returns [OF Returns] by (rule returns)
next
  case Throws
  then show ?thesis
    using buildQuery_throws [OF Throws] by (rule throws)
qed

lemma map_outcome_returns:
  "(\<And>x. x \<in> set xs \<Longrightarrow> f x = Returns (g x)) \<Longrightarrow> map_outcome f xs = Returns (map g xs)"
  by (induction xs) simp_all

lemma mapper_call_returns:
  "string_receiver r = Returns req \<Longrightarrow>
     mapResultToSupplier_call tbl h item c r = Returns (mapResultToSupplier tbl h item c (Some req))"
  by (simp add: mapResultToSupplier_call_def)

lemma effective_num_range: "0 < effective_num mr \<and> effective_num mr \<le> 20"
  by (cases mr) (simp_all add: effective_num_def)

lemma slice0_nonneg:
  assumes "0 \<le> k"
  shows "slice0 k xs = take (nat \<lfloor>k\<rfloor>) xs"
proof -
  have f: "0 \<le> \<lfloor>k\<rfloor>"
    using assms by simp
  have "take (nat (min \<lfloor>k\<rfloor> (int (length xs)))) xs = take (nat \<lfloor>k\<rfloor>) xs"
    using f by (cases "\<lfloor>k\<rfloor> \<le> int (length xs)") (simp_all add: min_def)
  then show ?thesis
    using assms f by (simp add: slice0_def Let_def)
qed

lemma set_slice0: "set (slice0 k xs) \<subseteq> set xs"
  unfolding slice0_def Let_def by (rule set_take_subset)

lemma search_build_throws:
  "buildQuery (body_requirements (body_of b)) (body_country (body_of b))
     (body_certifications (body_of b)) = Throws \<Longrightarrow>
   search_suppliers tbl key h fetch b
     = (\<lparr> res_status = 500, res_body = ErrorBody (lit ''Internal server error'') \<rparr>, [])"
  by (simp add: search_suppliers_def Let_def)

lemma search_no_key:
  "buildQuery (body_requirements (body_of b)) (body_country (body_of b))
     (body_certifications (body_of b)) = Returns q \<Longrightarrow>
   \<not> truthy key \<Longrightarrow>
   search_suppliers tbl key h fetch b
     = (\<lparr> res_status = 500,
          res_body = ErrorBody (lit ''SerpAPI key not configured on server.'') \<rparr>, [])"
  by (cases key) (simp_all add: search_suppliers_def truthy_def Let_def)

lemma search_fetch_throws:
  "buildQuery (body_requirements (body_of b)) (body_country (body_of b))
     (body_certifications (body_of b)) = Returns q \<Longrightarrow>
   key = Some k \<Longrightarrow> k \<noteq> [] \<Longrightarrow>
   fetch (search_params k q (effective_num (body_maxResults (body_of b)))) = FetchThrows \<Longrightarrow>
   search_suppliers tbl key h fetch b
     = (\<lparr> res_status = 500, res_body = ErrorBody (lit ''Internal server error'') \<rparr>,
        [search_params k q (effective_num (body_maxResults (body_of b)))])"
  by (simp add: search_suppliers_def Let_def)

lemma search_not_ok:
  "buildQuery (body_requirements (body_of b)) (body_country (body_of b))
     (body_certifications (body_of b)) = Returns q \<Longrightarrow>
   key = Some k \<Longrightarrow> k \<noteq> [] \<Longrightarrow>
   fetch (search_params k q (effective_num (body_maxResults (body_of b))))
     = FetchResponse st json \<Longrightarrow>
   \<not> response_ok st \<Longrightarrow>
   search_suppliers tbl key h fetch b
     = (\<lparr> res_status = 502,
          res_body = ErrorBody (lit ''SerpAPI HTTP error '' @ string_of_nat st) \<rparr>,
        [search_params k q (effective_num (body_maxResults (body_of b)))])"
  by (simp add: search_suppliers_def Let_def)

lemma search_json_throws:
  "buildQuery (body_requirements (body_of b)) (body_country (body_of b))
     (body_certifications (body_of b)) = Returns q \<Longrightarrow>
   key = Some k \<Longrightarrow> k \<noteq> [] \<Longrightarrow>
   fetch (search_params k q (effective_num (body_maxResults (body_of b))))
     = FetchResponse st Throws \<Longrightarrow>
   response_ok st \<Longrightarrow>
   search_suppliers tbl key h fetch b
     = (\<lparr> res_status = 500, res_body = ErrorBody (lit ''Internal server error'') \<rparr>,
        [search_params k q (effective_num (body_maxResults (body_of b)))])"
  by (simp add: search_suppliers_def Let_def)

lemma search_success:
  assumes q: "buildQuery (body_requirements (body_of b)) (body_country (body_of b))
                (body_certifications (body_of b)) = Returns q"
    and r: "string_receiver (body_requirements (body_of b)) = Returns req"
    and k: "key = Some k" "k \<noteq> []"
    and f: "fetch (search_params k q (effective_num (body_maxResults (body_of b))))
              = FetchResponse st (Returns data)"
    and ok: "response_ok st"
  shows "search_suppliers tbl key h fetch b
     = (\<lparr> res_status = 200,
          res_body = SupplierList
            (map (\<lambda>item. mapResultToSupplier tbl h item (body_country (body_of b)) (Some req))
               (slice0 (effective_num (body_maxResults (body_of b)))
                  (filter (\<lambda>r. truthy (item_link r)) (results_of data)))) \<rparr>,
        [search_params k q (effective_num (body_maxResults (body_of b)))])"
proof -
  have m: "map_outcome
             (\<lambda>item. mapResultToSupplier_call tbl h item (body_country (body_of b))
                        (body_requirements (body_of b))) xs
           = Returns (map (\<lambda>item. mapResultToSupplier tbl h item (body_country (body_of b))
                                   (Some req)) xs)" for xs
    by (rule map_outcome_returns) (simp add: mapper_call_returns [OF r])
  show ?thesis
    using q k f ok by (simp add: search_suppliers_def Let_def m)
qed

section \<open>Properties of the query builder\<close>




section \<open>Properties of the result mapper\<close>

text \<open>
  C1. For every requirements text (an absent one counts as empty) and every raw item,
  the keywords the mapper keeps are those of the specification: the requirements in
  lower case, split on every run of characters that are not alphanumeric, the tokens of
  length at least 4, without repetition in the order of first occurrence, at most the
  first 8. The matched keywords are the kept ones that occur as a substring of the
  snippet in lower case. The score is 100 times matched over kept, rounded to the
  nearest integer, and 0 when no token qualifies.
\<close>

theorem keyword_match_score:
  "uniqueKeywords tbl r = spec_keywords tbl (or_else r [])
   \<and> matchedKeywords tbl r (toLowerCase tbl (snippet_of item))
       = spec_matched tbl (or_else r []) (snippet_of item)
   \<and> matchScore (mapResultToSupplier tbl h item c r)
       = spec_matchScore tbl (or_else r []) (snippet_of item)
   \<and> (spec_keywords tbl (or_else r []) = []
        \<longrightarrow> matchScore (mapResultToSupplier tbl h item c r) = 0)"
proof -
  have score: "matchScore (mapResultToSupplier tbl h item c r)
                 = spec_matchScore tbl (or_else r []) (snippet_of item)"
    by (simp only: map_matchScore matchScore_of_spec)
  have zero: "spec_keywords tbl (or_else r []) = []
                \<longrightarrow> matchScore (mapResultToSupplier tbl h item c r) = 0"
    unfolding score by (simp add: spec_matchScore_def)
  show ?thesis
    using uniqueKeywords_spec matchedKeywords_spec score zero by blast
qed

theorem keyword_match_score_witness:
  "spec_keywords sample_table (or_else (Some (lit ''the pen'')) []) = []
   \<and> matchScore (mapResultToSupplier sample_table sample_hostname
        \<lparr> item_link = None, item_url = None, item_title = None,
          item_snippet = Some (lit ''A pen.''), item_description = None \<rparr>
        None (Some (lit ''the pen''))) = 0
   \<and> uniqueKeywords sample_table (Some (lit ''Plastic prototype parts, PLASTIC''))
       = [lit ''plastic'', lit ''prototype'', lit ''parts'']
   \<and> matchScore (mapResultToSupplier sample_table sample_hostname
        \<lparr> item_link = None, item_url = None, item_title = None,
          item_snippet = Some (lit ''ISO certified plastic manufacturer''),
          item_description = None \<rparr>
        None (Some (lit ''Plastic prototype parts, PLASTIC''))) = 33
   \<and> uniqueKeywords sample_table (Some ([0x212A] @ lit ''its caf'' @ [0xC9] @ lit '' latte''))
       = [lit ''kits'', lit ''latte'']
   \<and> matchScore (mapResultToSupplier sample_table sample_hostname
        \<lparr> item_link = None, item_url = None, item_title = None,
          item_snippet = Some (lit ''Kits and LATTE''), item_description = None \<rparr>
        None (Some ([0x212A] @ lit ''its caf'' @ [0xC9] @ lit '' latte''))) = 100
   \<and> uniqueKeywords sample_table (Some (lit ''TAX'' @ [0x130] @ lit '' fare'')) = [lit ''taxi'', lit ''fare'']"
proof -
  have k0: "spec_keywords sample_table (or_else (Some (lit ''the pen'')) []) = []"
    by code_simp
  have k1: "spec_keywords sample_table (or_else (Some (lit ''Plastic prototype parts, PLASTIC'')) [])
              = [lit ''plastic'', lit ''prototype'', lit ''parts'']"
    by code_simp
  have s1: "spec_matchScore sample_table
              (or_else (Some (lit ''Plastic prototype parts, PLASTIC'')) [])
              (snippet_of \<lparr> item_link = None, item_url = None, item_title = None,
                 item_snippet = Some (lit ''ISO certified plastic manufacturer''),
                 item_description = None \<rparr>) = 33"
    by code_simp
  have k2: "spec_keywords sample_table
              (or_else (Some ([0x212A] @ lit ''its caf'' @ [0xC9] @ lit '' latte'')) [])
              = [lit ''kits'', lit ''latte'']"
    by code_simp
  have s2: "spec_matchScore sample_table
              (or_else (Some ([0x212A] @ lit ''its caf'' @ [0xC9] @ lit '' latte'')) [])
              (snippet_of \<lparr> item_link = None, item_url = None, item_title = None,
                 item_snippet = Some (lit ''Kits and LATTE''), item_description = None \<rparr>) = 100"
    by code_simp
  have k3: "spec_keywords sample_table (or_else (Some (lit ''TAX'' @ [0x130] @ lit '' fare'')) [])
              = [lit ''taxi'', lit ''fare'']"
    by code_simp
  note d = keyword_match_score [of sample_table "Some (lit ''TAX'' @ [0x130] @ lit '' fare'')"
        "\<lparr> item_link = None, item_url = None, item_title = None,
           item_snippet = None, item_description = None \<rparr>" sample_hostname None]
  note a = keyword_match_score [of sample_table "Some (lit ''the pen'')"
        "\<lparr> item_link = None, item_url = None, item_title = None,
           item_snippet = Some (lit ''A pen.''), item_description = None \<rparr>"
        sample_hostname None]
  note b = keyword_match_score [of sample_table "Some (lit ''Plastic prototype parts, PLASTIC'')"
        "\<lparr> item_link = None, item_url = None, item_title = None,
           item_snippet = Some (lit ''ISO certified plastic manufacturer''),
           item_description = None \<rparr>" sample_hostname None]
  note c = keyword_match_score [of sample_table
        "Some ([0x212A] @ lit ''its caf'' @ [0xC9] @ lit '' latte'')"
        "\<lparr> item_link = None, item_url = None, item_title = None,
           item_snippet = Some (lit ''Kits and LATTE''), item_description = None \<rparr>"
        sample_hostname None]
  show ?thesis
    using a b c d k0 k1 s1 k2 s2 k3 by simp
qed

text \<open>
  C6. For every item, country and requirements, the tags of the supplier record
  contain the literal "Web result", and it is their last element.
\<close>

theorem tags_web_result_last:
  "lit ''Web result'' \<in> set (tags (mapResultToSupplier tbl h item c r))
   \<and> tags (mapResultToSupplier tbl h item c r) \<noteq> []
   \<and> last (tags (mapResultToSupplier tbl h item c r)) = lit ''Web result''"
  by (simp add: map_tags tags_of_def)

theorem tags_web_result_last_witness:
  "tags (mapResultToSupplier sample_table sample_hostname
        \<lparr> item_link = Some (lit ''https://acme.example.com/x''), item_url = None,
          item_title = None,
          item_snippet =
            Some (lit ''ISO certified plastic manufacturer, family-owned, based in Ohio''),
          item_description = None \<rparr>
        None (Some (lit ''plastic prototype parts'')))
     = [lit ''ISO / quality'', lit ''Plastics'', lit ''Prototyping'', lit ''Web result'']
   \<and> last (tags (mapResultToSupplier sample_table sample_hostname
        \<lparr> item_link = Some (lit ''https://acme.example.com/x''), item_url = None,
          item_title = None,
          item_snippet =
            Some (lit ''ISO certified plastic manufacturer, family-owned, based in Ohio''),
          item_description = None \<rparr>
        None (Some (lit ''plastic prototype parts'')))) = lit ''Web result''"
proof -
  have v: "tags (mapResultToSupplier sample_table sample_hostname
        \<lparr> item_link = Some (lit ''https://acme.example.com/x''), item_url = None,
          item_title = None,
          item_snippet =
            Some (lit ''ISO certified plastic manufacturer, family-owned, based in Ohio''),
          item_description = None \<rparr>
        None (Some (lit ''plastic prototype parts'')))
     = [lit ''ISO / quality'', lit ''Plastics'', lit ''Prototyping'', lit ''Web result'']"
    by code_simp
  show ?thesis
    using v tags_web_result_last [of sample_table sample_hostname
        "\<lparr> item_link = Some (lit ''https://acme.example.com/x''), item_url = None,
          item_title = None,
          item_snippet =
            Some (lit ''ISO certified plastic manufacturer, family-owned, based in Ohio''),
          item_description = None \<rparr>" None "Some (lit ''plastic prototype parts'')"]
    by blast
qed

text \<open>
  C5. The size category is decided on the snippet in lower case by one chain of
  alternatives: a small/SME signal gives the small category; otherwise a multinational
  signal gives the large category; otherwise the category is the "not stated" text.
  Independently of that chain, the employees field is the "mentioned in snippet" text
  when "employees" occurs in the snippet in lower case, and the default text otherwise.
\<close>

theorem size_category_and_employees:
  "sizeCategory (mapResultToSupplier tbl h item c r) =
     (if sublist (lit ''small company'') (toLowerCase tbl (snippet_of item))
         \<or> sublist (lit ''sme'') (toLowerCase tbl (snippet_of item))
         \<or> sublist (lit ''family-owned'') (toLowerCase tbl (snippet_of item))
         \<or> sublist (lit ''family owned'') (toLowerCase tbl (snippet_of item))
      then lit ''Small / SME (heuristic from snippet)''
      else if sublist (lit ''multinational'') (toLowerCase tbl (snippet_of item))
         \<or> sublist (lit ''global leader'') (toLowerCase tbl (snippet_of item))
         \<or> sublist (lit ''worldwide'') (toLowerCase tbl (snippet_of item))
         \<or> sublist (lit ''thousands of employees'') (toLowerCase tbl (snippet_of item))
      then lit ''Large / multinational (heuristic from snippet)''
      else lit ''Not stated '' @ en_dash @ lit '' likely small/medium (verify manually)'')
   \<and> employees (mapResultToSupplier tbl h item c r) =
     (if sublist (lit ''employees'') (toLowerCase tbl (snippet_of item))
      then lit ''Employees mentioned in snippet '' @ en_dash @ lit '' confirm on website''
      else lit ''Unknown (check company website / LinkedIn)'')"
  by (simp add: map_sizeCategory map_employees sizeCategory_of_def employees_of_def
        js_includes_sublist Let_def)

theorem size_category_and_employees_witness:
  "sublist (lit ''sme'') (toLowerCase sample_table (snippet_of
        \<lparr> item_link = None, item_url = None, item_title = None,
          item_snippet = Some (lit ''A multinational SME with thousands of Employees''),
          item_description = None \<rparr>))
   \<and> sizeCategory (mapResultToSupplier sample_table sample_hostname
        \<lparr> item_link = None, item_url = None, item_title = None,
          item_snippet = Some (lit ''A multinational SME with thousands of Employees''),
          item_description = None \<rparr> None None) = lit ''Small / SME (heuristic from snippet)''
   \<and> employees (mapResultToSupplier sample_table sample_hostname
        \<lparr> item_link = None, item_url = None, item_title = None,
          item_snippet = Some (lit ''A multinational SME with thousands of Employees''),
          item_description = None \<rparr> None None)
       = lit ''Employees mentioned in snippet '' @ en_dash @ lit '' confirm on website''"
proof -
  have a: "sublist (lit ''sme'') (toLowerCase sample_table (snippet_of
        \<lparr> item_link = None, item_url = None, item_title = None,
          item_snippet = Some (lit ''A multinational SME with thousands of Employees''),
          item_description = None \<rparr>))"
    by code_simp
  have b: "sublist (lit ''employees'') (toLowerCase sample_table (snippet_of
        \<lparr> item_link = None, item_url = None, item_title = None,
          item_snippet = Some (lit ''A multinational SME with thousands of Employees''),
          item_description = None \<rparr>))"
    by code_simp
  show ?thesis
    using a b size_category_and_employees [of sample_table sample_hostname
        "\<lparr> item_link = None, item_url = None, item_title = None,
          item_snippet = Some (lit ''A multinational SME with thousands of Employees''),
          item_description = None \<rparr>" None None]
    by simp
qed

text \<open>
  C7. When the item has neither a link nor a url, or when the URL constructor throws on
  the resolved URL, the display link is the sentinel "unknown". The mapper is a total
  function: the exception of the constructor is a case of \<open>displayLink_of\<close> and does
  not leave it.
\<close>

theorem displayLink_unknown:
  assumes "(\<not> truthy (item_link item) \<and> \<not> truthy (item_url item))
           \<or> url_hostname (url_of item) = Throws"
  shows "displayLink (mapResultToSupplier tbl url_hostname item c r) = lit ''unknown''"
proof -
  have "displayLink_of url_hostname (url_of item) = lit ''unknown''"
  proof (cases "url_of item = []")
    case True
    then show ?thesis by (simp add: displayLink_of_def)
  next
    case False
    then have "truthy (item_link item) \<or> truthy (item_url item)"
      by (auto simp: url_of_def or_else_def truthy_def split: option.splits if_splits)
    with assms have "url_hostname (url_of item) = Throws"
      by blast
    then show ?thesis by (simp add: displayLink_of_def)
  qed
  then show ?thesis by (simp add: map_displayLink)
qed

theorem displayLink_unknown_witness:
  "(\<not> truthy (item_link \<lparr> item_link = None, item_url = None,
          item_title = Some (lit ''Acme''), item_snippet = None, item_description = None \<rparr>)
    \<and> \<not> truthy (item_url \<lparr> item_link = None, item_url = None,
          item_title = Some (lit ''Acme''), item_snippet = None, item_description = None \<rparr>))
   \<and> displayLink (mapResultToSupplier sample_table sample_hostname
        \<lparr> item_link = None, item_url = None, item_title = Some (lit ''Acme''),
          item_snippet = None, item_description = None \<rparr> None None) = lit ''unknown''
   \<and> sample_hostname
         (url_of \<lparr> item_link = Some (lit ''not a url''), item_url = None, item_title = None,
          item_snippet = None, item_description = None \<rparr>) = Throws
   \<and> displayLink (mapResultToSupplier sample_table sample_hostname
        \<lparr> item_link = Some (lit ''not a url''), item_url = None, item_title = None,
          item_snippet = None, item_description = None \<rparr> None None) = lit ''unknown''"
proof -
  have a: "\<not> truthy (item_link \<lparr> item_link = None, item_url = None,
          item_title = Some (lit ''Acme''), item_snippet = None, item_description = None \<rparr>)
    \<and> \<not> truthy (item_url \<lparr> item_link = None, item_url = None,
          item_title = Some (lit ''Acme''), item_snippet = None, item_description = None \<rparr>)"
    by (simp add: truthy_def)
  have b: "sample_hostname
         (url_of \<lparr> item_link = Some (lit ''not a url''), item_url = None, item_title = None,
          item_snippet = None, item_description = None \<rparr>) = Throws"
    by code_simp
  from a have 1: "displayLink (mapResultToSupplier sample_table sample_hostname
        \<lparr> item_link = None, item_url = None, item_title = Some (lit ''Acme''),
          item_snippet = None, item_description = None \<rparr> None None) = lit ''unknown''"
    by (intro displayLink_unknown disjI1)
  from b have 2: "displayLink (mapResultToSupplier sample_table sample_hostname
        \<lparr> item_link = Some (lit ''not a url''), item_url = None, item_title = None,
          item_snippet = None, item_description = None \<rparr> None None) = lit ''unknown''"
    by (intro displayLink_unknown disjI2)
  show ?thesis
    using a b 1 2 by blast
qed




text \<open>
  C4 (amended). The location and its detail are decided by the first capture among six
  attempts in this order: "based in" on the snippet, on the title, "headquartered in" on
  the snippet, on the title, "located in" on the snippet, on the title, each without
  regard to case. With a capture, the location is the capture without the white space at
  its ends, followed by ", <country>" when a country is given, and the detail is the
  "appears to be located in" text with the same trimmed capture; later attempts play no
  part. Without a capture, the location is the country, or "Not specified", and the
  detail is the default text.
\<close>

theorem location_first_capture:
  "(location (mapResultToSupplier tbl h item c r),
    locationDetail (mapResultToSupplier tbl h item c r))
     = spec_location (snippet_of item) (title_of h item) c
   \<and> (first_capture (spec_attempts (snippet_of item) (title_of h item)) = None \<longrightarrow>
        location (mapResultToSupplier tbl h item c r) = or_else c (lit ''Not specified'')
        \<and> locationDetail (mapResultToSupplier tbl h item c r)
            = lit ''Location not clearly stated in search snippet.'')
   \<and> (\<forall>cap. first_capture (spec_attempts (snippet_of item) (title_of h item)) = Some cap \<longrightarrow>
        location (mapResultToSupplier tbl h item c r)
            = spec_trim cap @ (if truthy c then lit '', '' @ or_else c [] else [])
        \<and> locationDetail (mapResultToSupplier tbl h item c r)
            = lit ''Appears to be located in '' @ spec_trim cap @ lit '' (from snippet/title).'')"
proof -
  have eq: "(location (mapResultToSupplier tbl h item c r),
             locationDetail (mapResultToSupplier tbl h item c r))
              = spec_location (snippet_of item) (title_of h item) c"
    by (simp only: map_location location_of_spec)
  have none: "first_capture (spec_attempts (snippet_of item) (title_of h item)) = None \<longrightarrow>
        location (mapResultToSupplier tbl h item c r) = or_else c (lit ''Not specified'')
        \<and> locationDetail (mapResultToSupplier tbl h item c r)
            = lit ''Location not clearly stated in search snippet.''"
  proof
    assume "first_capture (spec_attempts (snippet_of item) (title_of h item)) = None"
    then have "spec_location (snippet_of item) (title_of h item) c
                 = (or_else c (lit ''Not specified''),
                    lit ''Location not clearly stated in search snippet.'')"
      by (simp add: spec_location_def)
    with eq show "location (mapResultToSupplier tbl h item c r) = or_else c (lit ''Not specified'')
        \<and> locationDetail (mapResultToSupplier tbl h item c r)
            = lit ''Location not clearly stated in search snippet.''"
      by simp
  qed
  have some: "\<forall>cap. first_capture (spec_attempts (snippet_of item) (title_of h item)) = Some cap \<longrightarrow>
        location (mapResultToSupplier tbl h item c r)
            = spec_trim cap @ (if truthy c then lit '', '' @ or_else c [] else [])
        \<and> locationDetail (mapResultToSupplier tbl h item c r)
            = lit ''Appears to be located in '' @ spec_trim cap @ lit '' (from snippet/title).''"
  proof (intro allI impI)
    fix cap
    assume "first_capture (spec_attempts (snippet_of item) (title_of h item)) = Some cap"
    then have "spec_location (snippet_of item) (title_of h item) c
                 = (spec_trim cap @ (if truthy c then lit '', '' @ or_else c [] else []),
                    lit ''Appears to be located in '' @ spec_trim cap
                    @ lit '' (from snippet/title).'')"
      by (simp add: spec_location_def)
    with eq show "location (mapResultToSupplier tbl h item c r)
            = spec_trim cap @ (if truthy c then lit '', '' @ or_else c [] else [])
        \<and> locationDetail (mapResultToSupplier tbl h item c r)
            = lit ''Appears to be located in '' @ spec_trim cap @ lit '' (from snippet/title).''"
      by simp
  qed
  show ?thesis
    using eq none some by blast
qed

theorem location_first_capture_witness:
  "first_capture (spec_attempts
      (snippet_of \<lparr> item_link = None, item_url = None,
          item_title = Some (lit ''Acme - Based in Milan (Italy)''),
          item_snippet = Some (lit ''Located in Turin. Family business''),
          item_description = None \<rparr>)
      (title_of sample_hostname \<lparr> item_link = None, item_url = None,
          item_title = Some (lit ''Acme - Based in Milan (Italy)''),
          item_snippet = Some (lit ''Located in Turin. Family business''),
          item_description = None \<rparr>))
     = Some (lit ''Milan '')
   \<and> location (mapResultToSupplier sample_table sample_hostname \<lparr> item_link = None,
          item_url = None, item_title = Some (lit ''Acme - Based in Milan (Italy)''),
          item_snippet = Some (lit ''Located in Turin. Family business''),
          item_description = None \<rparr>
        (Some (lit ''Italy'')) None) = lit ''Milan, Italy''
   \<and> first_capture (spec_attempts
      (snippet_of \<lparr> item_link = None, item_url = None, item_title = Some (lit ''Acme''),
          item_snippet = Some (lit ''We are based in Ohio'' @ [0xA0] @ lit ''USA since 1950''),
          item_description = None \<rparr>)
      (title_of sample_hostname \<lparr> item_link = None, item_url = None,
          item_title = Some (lit ''Acme''),
          item_snippet = Some (lit ''We are based in Ohio'' @ [0xA0] @ lit ''USA since 1950''),
          item_description = None \<rparr>))
     = Some (lit ''Ohio'' @ [0xA0] @ lit ''USA since '')
   \<and> location (mapResultToSupplier sample_table sample_hostname \<lparr> item_link = None,
          item_url = None, item_title = Some (lit ''Acme''),
          item_snippet = Some (lit ''We are based in Ohio'' @ [0xA0] @ lit ''USA since 1950''),
          item_description = None \<rparr> None None) = lit ''Ohio'' @ [0xA0] @ lit ''USA since''
   \<and> first_capture (spec_attempts
      (snippet_of \<lparr> item_link = None, item_url = None, item_title = Some (lit ''Acme''),
          item_snippet = Some (lit ''Plastic parts''), item_description = None \<rparr>)
      (title_of sample_hostname \<lparr> item_link = None, item_url = None,
          item_title = Some (lit ''Acme''),
          item_snippet = Some (lit ''Plastic parts''), item_description = None \<rparr>)) = None
   \<and> location (mapResultToSupplier sample_table sample_hostname \<lparr> item_link = None,
          item_url = None, item_title = Some (lit ''Acme''),
          item_snippet = Some (lit ''Plastic parts''),
          item_description = None \<rparr> None None) = lit ''Not specified''"
proof -
  have a: "first_capture (spec_attempts
      (snippet_of \<lparr> item_link = None, item_url = None,
          item_title = Some (lit ''Acme - Based in Milan (Italy)''),
          item_snippet = Some (lit ''Located in Turin. Family business''),
          item_description = None \<rparr>)
      (title_of sample_hostname \<lparr> item_link = None, item_url = None,
          item_title = Some (lit ''Acme - Based in Milan (Italy)''),
          item_snippet = Some (lit ''Located in Turin. Family business''),
          item_description = None \<rparr>))
     = Some (lit ''Milan '')"
    by code_simp
  have n: "first_capture (spec_attempts
      (snippet_of \<lparr> item_link = None, item_url = None, item_title = Some (lit ''Acme''),
          item_snippet = Some (lit ''We are based in Ohio'' @ [0xA0] @ lit ''USA since 1950''),
          item_description = None \<rparr>)
      (title_of sample_hostname \<lparr> item_link = None, item_url = None,
          item_title = Some (lit ''Acme''),
          item_snippet = Some (lit ''We are based in Ohio'' @ [0xA0] @ lit ''USA since 1950''),
          item_description = None \<rparr>))
     = Some (lit ''Ohio'' @ [0xA0] @ lit ''USA since '')"
    by code_simp
  have b: "first_capture (spec_attempts
      (snippet_of \<lparr> item_link = None, item_url = None, item_title = Some (lit ''Acme''),
          item_snippet = Some (lit ''Plastic parts''), item_description = None \<rparr>)
      (title_of sample_hostname \<lparr> item_link = None, item_url = None,
          item_title = Some (lit ''Acme''),
          item_snippet = Some (lit ''Plastic parts''), item_description = None \<rparr>)) = None"
    by code_simp
  have t: "spec_trim (lit ''Milan '') @ lit '', '' @ lit ''Italy'' = lit ''Milan, Italy''"
    by code_simp
  have t2: "spec_trim (lit ''Ohio'' @ [0xA0] @ lit ''USA since '')
              = lit ''Ohio'' @ [0xA0] @ lit ''USA since''"
    by code_simp
  note x = location_first_capture [of sample_table sample_hostname "\<lparr> item_link = None,
          item_url = None, item_title = Some (lit ''Acme - Based in Milan (Italy)''),
          item_snippet = Some (lit ''Located in Turin. Family business''),
          item_description = None \<rparr>" "Some (lit ''Italy'')" None]
  note y = location_first_capture [of sample_table sample_hostname "\<lparr> item_link = None,
          item_url = None, item_title = Some (lit ''Acme''),
          item_snippet = Some (lit ''We are based in Ohio'' @ [0xA0] @ lit ''USA since 1950''),
          item_description = None \<rparr>" None None]
  note z = location_first_capture [of sample_table sample_hostname "\<lparr> item_link = None,
          item_url = None, item_title = Some (lit ''Acme''),
          item_snippet = Some (lit ''Plastic parts''),
          item_description = None \<rparr>" None None]
  have tr: "truthy (Some (lit ''Italy''))" "or_else (Some (lit ''Italy'')) [] = lit ''Italy''"
    by (simp_all add: truthy_def or_else_def lit_def)
  have 1: "location (mapResultToSupplier sample_table sample_hostname \<lparr> item_link = None,
          item_url = None, item_title = Some (lit ''Acme - Based in Milan (Italy)''),
          item_snippet = Some (lit ''Located in Turin. Family business''),
          item_description = None \<rparr>
        (Some (lit ''Italy'')) None) = lit ''Milan, Italy''"
    using x a t tr by simp
  have 2: "location (mapResultToSupplier sample_table sample_hostname \<lparr> item_link = None,
          item_url = None, item_title = Some (lit ''Acme''),
          item_snippet = Some (lit ''We are based in Ohio'' @ [0xA0] @ lit ''USA since 1950''),
          item_description = None \<rparr> None None) = lit ''Ohio'' @ [0xA0] @ lit ''USA since''"
    using y n t2 by (simp add: truthy_def)
  have 3: "location (mapResultToSupplier sample_table sample_hostname \<lparr> item_link = None,
          item_url = None, item_title = Some (lit ''Acme''),
          item_snippet = Some (lit ''Plastic parts''),
          item_description = None \<rparr> None None) = lit ''Not specified''"
    using z b by (simp add: or_else_def)
  show ?thesis
    using a 1 n 2 b 3 by (intro conjI)
qed

text \<open>
  The claim as written sets the location to the captured text. The source trims it: in
  "Based in Ohio (USA)" the capture is "Ohio " with its final space, the location "Ohio".
\<close>

theorem location_capture_counterexample:
  "first_capture (spec_attempts
      (snippet_of \<lparr> item_link = None, item_url = None, item_title = None,
          item_snippet = Some (lit ''Based in Ohio (USA)''), item_description = None \<rparr>)
      (title_of sample_hostname \<lparr> item_link = None, item_url = None, item_title = None,
          item_snippet = Some (lit ''Based in Ohio (USA)''), item_description = None \<rparr>))
     = Some (lit ''Ohio '')
   \<and> location (mapResultToSupplier sample_table sample_hostname \<lparr> item_link = None,
          item_url = None, item_title = None,
          item_snippet = Some (lit ''Based in Ohio (USA)''),
          item_description = None \<rparr> None None) \<noteq> lit ''Ohio ''"
proof -
  have a: "first_capture (spec_attempts
      (snippet_of \<lparr> item_link = None, item_url = None, item_title = None,
          item_snippet = Some (lit ''Based in Ohio (USA)''), item_description = None \<rparr>)
      (title_of sample_hostname \<lparr> item_link = None, item_url = None, item_title = None,
          item_snippet = Some (lit ''Based in Ohio (USA)''), item_description = None \<rparr>))
     = Some (lit ''Ohio '')"
    by code_simp
  have b: "location (mapResultToSupplier sample_table sample_hostname \<lparr> item_link = None,
          item_url = None, item_title = None,
          item_snippet = Some (lit ''Based in Ohio (USA)''),
          item_description = None \<rparr> None None) = lit ''Ohio''"
    by code_simp
  show ?thesis
    using a b by (simp add: lit_def)
qed

section \<open>Properties of the request handler\<close>



lemma search_cases:
  obtains
    (build_throws)
      "buildQuery (body_requirements (body_of b)) (body_country (body_of b))
         (body_certifications (body_of b)) = Throws"
  | (no_key) q where
      "buildQuery (body_requirements (body_of b)) (body_country (body_of b))
         (body_certifications (body_of b)) = Returns q"
      "\<not> truthy key"
  | (fetch_throws) q k where
      "buildQuery (body_requirements (body_of b)) (body_country (body_of b))
         (body_certifications (body_of b)) = Returns q"
      "key = Some k" "k \<noteq> []"
      "fetch (search_params k q (effective_num (body_maxResults (body_of b)))) = FetchThrows"
  | (not_ok) q k st json where
      "buildQuery (body_requirements (body_of b)) (body_country (body_of b))
         (body_certifications (body_of b)) = Returns q"
      "key = Some k" "k \<noteq> []"
      "fetch (search_params k q (effective_num (body_maxResults (body_of b))))
         = FetchResponse st json"
      "\<not> response_ok st"
  | (json_throws) q k st where
      "buildQuery (body_requirements (body_of b)) (body_country (body_of b))
         (body_certifications (body_of b)) = Returns q"
      "key = Some k" "k \<noteq> []"
      "fetch (search_params k q (effective_num (body_maxResults (body_of b))))
         = FetchResponse st Throws"
      "response_ok st"
  | (success) q req k st data where
      "buildQuery (body_requirements (body_of b)) (body_country (body_of b))
         (body_certifications (body_of b)) = Returns q"
      "string_receiver (body_requirements (body_of b)) = Returns req"
      "key = Some k" "k \<noteq> []"
      "fetch (search_params k q (effective_num (body_maxResults (body_of b))))
         = FetchResponse st (Returns data)"
      "response_ok st"
proof (cases rule: buildQuery_cases [where r = "body_requirements (body_of b)"
         and c = "body_country (body_of b)" and cert = "body_certifications (body_of b)"])
  case throws
  then show ?thesis by (intro build_throws)
next
  case (returns req)
  define q where "q = spec_buildQuery req (body_country (body_of b))
                        (body_certifications (body_of b))"
  have bq: "buildQuery (body_requirements (body_of b)) (body_country (body_of b))
              (body_certifications (body_of b)) = Returns q"
    unfolding q_def by (rule returns(2))
  show ?thesis
  proof (cases "truthy key")
    case False
    with bq show ?thesis by (rule no_key)
  next
    case True
    then obtain k where k: "key = Some k" "k \<noteq> []"
      by (cases key) (simp_all add: truthy_def)
    show ?thesis
    proof (cases "fetch (search_params k q (effective_num (body_maxResults (body_of b))))")
      case FetchThrows
      with bq k show ?thesis by (rule fetch_throws)
    next
      case (FetchResponse st json)
      show ?thesis
      proof (cases "response_ok st")
        case False
        with bq k FetchResponse show ?thesis by (rule not_ok)
      next
        case True
        show ?thesis
        proof (cases json)
          case (Returns data)
          with FetchResponse
          have "fetch (search_params k q (effective_num (body_maxResults (body_of b))))
                  = FetchResponse st (Returns data)"
            by simp
          with bq returns(1) k show ?thesis
            using True by (rule success)
        next
          case Throws
          with FetchResponse
          have "fetch (search_params k q (effective_num (body_maxResults (body_of b))))
                  = FetchResponse st Throws"
            by simp
          with bq k show ?thesis
            using True by (rule json_throws)
        qed
      qed
    qed
  qed
qed




text \<open>
  C3. The effective count is 10 when \<open>maxResults\<close> is absent or at most 0, \<open>maxResults\<close>
  itself when it lies in (0, 20], and 20 above. On success (the query was built, there
  is a credential, the response has a status in 200..299 and its body parses) the handler
  answers 200 with the mapped suppliers: the organic results of the provider, none when
  the field is absent, without the entries that lack a link, cut to the first \<open>num\<close>
  entries (to its integer part), each mapped by the result mapper with the country and
  the requirements text of the request, in the order of the provider.
\<close>

theorem effective_count_and_success:
  "effective_num None = 10
   \<and> (n \<le> 0 \<longrightarrow> effective_num (Some n) = 10)
   \<and> (0 < n \<and> n \<le> 20 \<longrightarrow> effective_num (Some n) = n)
   \<and> (20 < n \<longrightarrow> effective_num (Some n) = 20)
   \<and> (buildQuery (body_requirements (body_of b)) (body_country (body_of b))
         (body_certifications (body_of b)) = Returns q
       \<and> string_receiver (body_requirements (body_of b)) = Returns req
       \<and> key = Some k \<and> k \<noteq> []
       \<and> fetch (search_params k q (effective_num (body_maxResults (body_of b))))
           = FetchResponse st (Returns data)
       \<and> response_ok st \<longrightarrow>
       search_suppliers tbl key h fetch b
         = (\<lparr> res_status = 200,
              res_body = SupplierList
                (map (\<lambda>item. mapResultToSupplier tbl h item (body_country (body_of b))
                               (Some req))
                   (take (nat \<lfloor>effective_num (body_maxResults (body_of b))\<rfloor>)
                      (filter (\<lambda>r. truthy (item_link r))
                         (case organic_results data of None \<Rightarrow> [] | Some rs \<Rightarrow> rs)))) \<rparr>,
            [search_params k q (effective_num (body_maxResults (body_of b)))]))"
proof -
  have e0: "effective_num None = 10"
    by (simp add: effective_num_def)
  have e1: "n \<le> 0 \<longrightarrow> effective_num (Some n) = 10"
    by (simp add: effective_num_def)
  have e2: "0 < n \<and> n \<le> 20 \<longrightarrow> effective_num (Some n) = n"
    by (simp add: effective_num_def)
  have e3: "20 < n \<longrightarrow> effective_num (Some n) = 20"
    by (simp add: effective_num_def)
  have sl: "slice0 (effective_num (body_maxResults (body_of b))) xs
              = take (nat \<lfloor>effective_num (body_maxResults (body_of b))\<rfloor>) xs"
    for xs :: "raw_item list"
    using effective_num_range [of "body_maxResults (body_of b)"]
    by (intro slice0_nonneg) simp
  have ok: "buildQuery (body_requirements (body_of b)) (body_country (body_of b))
         (body_certifications (body_of b)) = Returns q
       \<and> string_receiver (body_requirements (body_of b)) = Returns req
       \<and> key = Some k \<and> k \<noteq> []
       \<and> fetch (search_params k q (effective_num (body_maxResults (body_of b))))
           = FetchResponse st (Returns data)
       \<and> response_ok st \<longrightarrow>
       search_suppliers tbl key h fetch b
         = (\<lparr> res_status = 200,
              res_body = SupplierList
                (map (\<lambda>item. mapResultToSupplier tbl h item (body_country (body_of b))
                               (Some req))
                   (take (nat \<lfloor>effective_num (body_maxResults (body_of b))\<rfloor>)
                      (filter (\<lambda>r. truthy (item_link r))
                         (case organic_results data of None \<Rightarrow> [] | Some rs \<Rightarrow> rs)))) \<rparr>,
            [search_params k q (effective_num (body_maxResults (body_of b)))])"
  proof
    assume a: "buildQuery (body_requirements (body_of b)) (body_country (body_of b))
         (body_certifications (body_of b)) = Returns q
       \<and> string_receiver (body_requirements (body_of b)) = Returns req
       \<and> key = Some k \<and> k \<noteq> []
       \<and> fetch (search_params k q (effective_num (body_maxResults (body_of b))))
           = FetchResponse st (Returns data)
       \<and> response_ok st"
    then have "search_suppliers tbl key h fetch b
     = (\<lparr> res_status = 200,
          res_body = SupplierList
            (map (\<lambda>item. mapResultToSupplier tbl h item (body_country (body_of b)) (Some req))
               (slice0 (effective_num (body_maxResults (body_of b)))
                  (filter (\<lambda>r. truthy (item_link r)) (results_of data)))) \<rparr>,
        [search_params k q (effective_num (body_maxResults (body_of b)))])"
      using search_success [of b q req key k fetch st data tbl h] by blast
    then show "search_suppliers tbl key h fetch b
         = (\<lparr> res_status = 200,
              res_body = SupplierList
                (map (\<lambda>item. mapResultToSupplier tbl h item (body_country (body_of b))
                               (Some req))
                   (take (nat \<lfloor>effective_num (body_maxResults (body_of b))\<rfloor>)
                      (filter (\<lambda>r. truthy (item_link r))
                         (case organic_results data of None \<Rightarrow> [] | Some rs \<Rightarrow> rs)))) \<rparr>,
            [search_params k q (effective_num (body_maxResults (body_of b)))])"
      by (simp add: sl results_of_def)
  qed
  show ?thesis
    using e0 e1 e2 e3 ok by blast
qed

theorem effective_count_and_success_witness:
  "effective_num (Some (- 3)) = 10
   \<and> effective_num (Some 5) = 5
   \<and> effective_num (Some 50) = 20
   \<and> response_ok 200
   \<and> buildQuery (body_requirements (body_of (Some sample_body)))
        (body_country (body_of (Some sample_body)))
        (body_certifications (body_of (Some sample_body)))
       = Returns (lit ''plastic prototype parts (supplier OR manufacturer OR vendor OR B2B) in USA'')
   \<and> search_suppliers sample_table (Some (lit ''secret'')) sample_hostname provider_ok
        (Some sample_body)
       = (\<lparr> res_status = 200,
            res_body = SupplierList
              [mapResultToSupplier sample_table sample_hostname
                 \<lparr> item_link = Some (lit ''https://acme.example.com/x''), item_url = None,
                   item_title = Some (lit ''Acme Plastics''),
                   item_snippet =
                     Some (lit ''ISO certified plastic manufacturer, family-owned, based in Ohio''),
                   item_description = None \<rparr>
                 (Some (lit ''USA'')) (Some (lit ''plastic prototype parts''))] \<rparr>,
          [search_params (lit ''secret'')
             (lit ''plastic prototype parts (supplier OR manufacturer OR vendor OR B2B) in USA'')
             1])"
proof -
  define q where "q = lit ''plastic prototype parts (supplier OR manufacturer OR vendor OR B2B) in USA''"
  have ok: "response_ok 200"
    by (simp add: response_ok_def)
  have good: "buildQuery (body_requirements (body_of (Some sample_body)))
                (body_country (body_of (Some sample_body)))
                (body_certifications (body_of (Some sample_body))) = Returns q"
    unfolding q_def by code_simp
  have rc: "string_receiver (body_requirements (body_of (Some sample_body)))
              = Returns (lit ''plastic prototype parts'')"
    by code_simp
  have k: "lit ''secret'' \<noteq> []"
    by (simp add: lit_def)
  have p: "provider_ok (search_params (lit ''secret'') q
             (effective_num (body_maxResults (body_of (Some sample_body)))))
             = FetchResponse 200 (Returns sample_data)"
    by (simp add: provider_ok_def)
  note a = effective_count_and_success [where n = "- 3" and key = "Some (lit ''secret'')"
      and k = "lit ''secret''" and fetch = provider_ok and b = "Some sample_body" and st = 200
      and data = sample_data and h = sample_hostname and tbl = sample_table and q = q
      and req = "lit ''plastic prototype parts''"]
  note b = effective_count_and_success [where n = 5 and key = "Some (lit ''secret'')"
      and k = "lit ''secret''" and fetch = provider_ok and b = "Some sample_body" and st = 200
      and data = sample_data and h = sample_hostname and tbl = sample_table and q = q
      and req = "lit ''plastic prototype parts''"]
  note c = effective_count_and_success [where n = 50 and key = "Some (lit ''secret'')"
      and k = "lit ''secret''" and fetch = provider_ok and b = "Some sample_body" and st = 200
      and data = sample_data and h = sample_hostname and tbl = sample_table and q = q
      and req = "lit ''plastic prototype parts''"]
  have 1: "effective_num (Some (- 3)) = 10"
    using a by simp
  have 2: "effective_num (Some 5) = 5"
    using b by simp
  have 3: "effective_num (Some 50) = 20"
    using c by simp
  have 4: "search_suppliers sample_table (Some (lit ''secret'')) sample_hostname provider_ok
        (Some sample_body)
       = (\<lparr> res_status = 200,
            res_body = SupplierList
              [mapResultToSupplier sample_table sample_hostname
                 \<lparr> item_link = Some (lit ''https://acme.example.com/x''), item_url = None,
                   item_title = Some (lit ''Acme Plastics''),
                   item_snippet =
                     Some (lit ''ISO certified plastic manufacturer, family-owned, based in Ohio''),
                   item_description = None \<rparr>
                 (Some (lit ''USA'')) (Some (lit ''plastic prototype parts''))] \<rparr>,
          [search_params (lit ''secret'') q 1])"
    using a good rc k p ok
    by (simp add: body_of_def sample_body_def sample_data_def truthy_def effective_num_def
          lit_def)
  show ?thesis
    using 1 2 3 ok good 4 unfolding q_def by (intro conjI)
qed

text \<open>
  C9. Every supplier of a successful response comes from a raw item of the provider
  whose link is a non-empty string: its url is that link, so the fallback to the item's
  \<open>url\<close> field is not used, and its display link is what the URL parser makes of the
  link, "unknown" only when the parser throws, never by the empty-url path.
\<close>

theorem endpoint_supplier_url_is_link:
  assumes "res_body (fst (search_suppliers tbl key h fetch b)) = SupplierList ss"
    and "s \<in> set ss"
  shows "url s \<noteq> []
    \<and> (\<exists>q req k st data item.
          key = Some k
          \<and> buildQuery (body_requirements (body_of b)) (body_country (body_of b))
               (body_certifications (body_of b)) = Returns q
          \<and> string_receiver (body_requirements (body_of b)) = Returns req
          \<and> fetch (search_params k q (effective_num (body_maxResults (body_of b))))
               = FetchResponse st (Returns data)
          \<and> item \<in> set (results_of data)
          \<and> item_link item = Some (url s)
          \<and> url_of item = url s
          \<and> s = mapResultToSupplier tbl h item (body_country (body_of b)) (Some req))
    \<and> displayLink s = (case h (url s) of Returns x \<Rightarrow> x | Throws \<Rightarrow> lit ''unknown'')"
proof (cases rule: search_cases [where key = key and fetch = fetch and b = b])
  case build_throws
  with assms(1) show ?thesis by (simp add: search_build_throws)
next
  case (no_key q)
  with assms(1) show ?thesis by (simp add: search_no_key)
next
  case (fetch_throws q k)
  with assms(1) show ?thesis by (simp add: search_fetch_throws)
next
  case (not_ok q k st json)
  with assms(1) show ?thesis by (simp add: search_not_ok)
next
  case (json_throws q k st)
  with assms(1) show ?thesis by (simp add: search_json_throws)
next
  case (success q req k st data)
  define xs where "xs = slice0 (effective_num (body_maxResults (body_of b)))
                          (filter (\<lambda>r. truthy (item_link r)) (results_of data))"
  define f where "f = (\<lambda>item. mapResultToSupplier tbl h item (body_country (body_of b))
                                 (Some req))"
  have "search_suppliers tbl key h fetch b
          = (\<lparr> res_status = 200, res_body = SupplierList (map f xs) \<rparr>,
             [search_params k q (effective_num (body_maxResults (body_of b)))])"
    unfolding xs_def f_def using success by (rule search_success)
  then have "res_body (fst (search_suppliers tbl key h fetch b)) = SupplierList (map f xs)"
    by simp
  with assms(1) have "ss = map f xs"
    by simp
  with assms(2) have "s \<in> f ` set xs"
    by simp
  then obtain item where it: "item \<in> set xs" and s: "s = f item"
    by (rule imageE)
  have "set xs \<subseteq> set (filter (\<lambda>r. truthy (item_link r)) (results_of data))"
    unfolding xs_def by (rule set_slice0)
  with it have "item \<in> set (filter (\<lambda>r. truthy (item_link r)) (results_of data))"
    by (rule subsetD [rotated])
  then have mem: "item \<in> set (results_of data)" and tr: "truthy (item_link item)"
    by simp_all
  from tr obtain l where l: "item_link item = Some l" "l \<noteq> []"
    by (cases "item_link item") (simp_all add: truthy_def)
  have u: "url_of item = l"
    using l by (simp add: url_of_def or_else_def)
  have us: "url s = l"
    unfolding s f_def map_url u ..
  have dl: "displayLink s = (case h l of Returns x \<Rightarrow> x | Throws \<Rightarrow> lit ''unknown'')"
    unfolding s f_def map_displayLink u using l(2) by (simp add: displayLink_of_def)
  have s': "s = mapResultToSupplier tbl h item (body_country (body_of b)) (Some req)"
    unfolding s f_def ..
  have ex: "\<exists>q req k st data item.
          key = Some k
          \<and> buildQuery (body_requirements (body_of b)) (body_country (body_of b))
               (body_certifications (body_of b)) = Returns q
          \<and> string_receiver (body_requirements (body_of b)) = Returns req
          \<and> fetch (search_params k q (effective_num (body_maxResults (body_of b))))
               = FetchResponse st (Returns data)
          \<and> item \<in> set (results_of data)
          \<and> item_link item = Some (url s)
          \<and> url_of item = url s
          \<and> s = mapResultToSupplier tbl h item (body_country (body_of b)) (Some req)"
  proof (intro exI conjI)
    show "key = Some k" by (rule success(3))
    show "buildQuery (body_requirements (body_of b)) (body_country (body_of b))
               (body_certifications (body_of b)) = Returns q" by (rule success(1))
    show "string_receiver (body_requirements (body_of b)) = Returns req" by (rule success(2))
    show "fetch (search_params k q (effective_num (body_maxResults (body_of b))))
               = FetchResponse st (Returns data)"
      by (rule success(5))
    show "item \<in> set (results_of data)" by (rule mem)
    show "item_link item = Some (url s)" unfolding us by (rule l(1))
    show "url_of item = url s" unfolding us by (rule u)
    show "s = mapResultToSupplier tbl h item (body_country (body_of b)) (Some req)"
      by (rule s')
  qed
  have ne: "url s \<noteq> []"
    unfolding us by (rule l(2))
  have dl': "displayLink s = (case h (url s) of Returns x \<Rightarrow> x | Throws \<Rightarrow> lit ''unknown'')"
    unfolding us by (rule dl)
  from ne ex dl' show ?thesis
    by (intro conjI)
qed

theorem endpoint_supplier_url_is_link_witness:
  "res_body (fst (search_suppliers sample_table (Some (lit ''secret'')) sample_hostname
                    provider_ok (Some sample_body)))
     = SupplierList
         [mapResultToSupplier sample_table sample_hostname
            \<lparr> item_link = Some (lit ''https://acme.example.com/x''), item_url = None,
              item_title = Some (lit ''Acme Plastics''),
              item_snippet =
                Some (lit ''ISO certified plastic manufacturer, family-owned, based in Ohio''),
              item_description = None \<rparr>
            (Some (lit ''USA'')) (Some (lit ''plastic prototype parts''))]
   \<and> url (mapResultToSupplier sample_table sample_hostname
            \<lparr> item_link = Some (lit ''https://acme.example.com/x''), item_url = None,
              item_title = Some (lit ''Acme Plastics''),
              item_snippet =
                Some (lit ''ISO certified plastic manufacturer, family-owned, based in Ohio''),
              item_description = None \<rparr>
            (Some (lit ''USA'')) (Some (lit ''plastic prototype parts'')))
       = lit ''https://acme.example.com/x''
   \<and> displayLink (mapResultToSupplier sample_table sample_hostname
            \<lparr> item_link = Some (lit ''https://acme.example.com/x''), item_url = None,
              item_title = Some (lit ''Acme Plastics''),
              item_snippet =
                Some (lit ''ISO certified plastic manufacturer, family-owned, based in Ohio''),
              item_description = None \<rparr>
            (Some (lit ''USA'')) (Some (lit ''plastic prototype parts'')))
       = lit ''acme.example.com''"
proof -
  define q where "q = lit ''plastic prototype parts (supplier OR manufacturer OR vendor OR B2B) in USA''"
  have ok: "response_ok 200"
    by (simp add: response_ok_def)
  have good: "buildQuery (body_requirements (body_of (Some sample_body)))
                (body_country (body_of (Some sample_body)))
                (body_certifications (body_of (Some sample_body))) = Returns q"
    unfolding q_def by code_simp
  have rc: "string_receiver (body_requirements (body_of (Some sample_body)))
              = Returns (lit ''plastic prototype parts'')"
    by code_simp
  have k: "lit ''secret'' \<noteq> []"
    by (simp add: lit_def)
  have p: "provider_ok (search_params (lit ''secret'') q
             (effective_num (body_maxResults (body_of (Some sample_body)))))
             = FetchResponse 200 (Returns sample_data)"
    by (simp add: provider_ok_def)
  have run: "res_body (fst (search_suppliers sample_table (Some (lit ''secret'')) sample_hostname
                    provider_ok (Some sample_body)))
     = SupplierList
         [mapResultToSupplier sample_table sample_hostname
            \<lparr> item_link = Some (lit ''https://acme.example.com/x''), item_url = None,
              item_title = Some (lit ''Acme Plastics''),
              item_snippet =
                Some (lit ''ISO certified plastic manufacturer, family-owned, based in Ohio''),
              item_description = None \<rparr>
            (Some (lit ''USA'')) (Some (lit ''plastic prototype parts''))]"
    using good rc k p ok search_success [where b = "Some sample_body" and q = q
        and req = "lit ''plastic prototype parts''" and key = "Some (lit ''secret'')"
        and k = "lit ''secret''" and fetch = provider_ok and st = 200 and data = sample_data
        and tbl = sample_table and h = sample_hostname]
    by (simp add: body_of_def sample_body_def sample_data_def truthy_def effective_num_def
          results_of_def slice0_def lit_def)
  have u: "url (mapResultToSupplier sample_table sample_hostname
            \<lparr> item_link = Some (lit ''https://acme.example.com/x''), item_url = None,
              item_title = Some (lit ''Acme Plastics''),
              item_snippet =
                Some (lit ''ISO certified plastic manufacturer, family-owned, based in Ohio''),
              item_description = None \<rparr>
            (Some (lit ''USA'')) (Some (lit ''plastic prototype parts'')))
       = lit ''https://acme.example.com/x''"
    by (simp add: map_url url_of_def or_else_def lit_def)
  note w = endpoint_supplier_url_is_link [OF run, of
        "mapResultToSupplier sample_table sample_hostname
            \<lparr> item_link = Some (lit ''https://acme.example.com/x''), item_url = None,
              item_title = Some (lit ''Acme Plastics''),
              item_snippet =
                Some (lit ''ISO certified plastic manufacturer, family-owned, based in Ohio''),
              item_description = None \<rparr>
            (Some (lit ''USA'')) (Some (lit ''plastic prototype parts''))"]
  have d: "displayLink (mapResultToSupplier sample_table sample_hostname
            \<lparr> item_link = Some (lit ''https://acme.example.com/x''), item_url = None,
              item_title = Some (lit ''Acme Plastics''),
              item_snippet =
                Some (lit ''ISO certified plastic manufacturer, family-owned, based in Ohio''),
              item_description = None \<rparr>
            (Some (lit ''USA'')) (Some (lit ''plastic prototype parts'')))
       = lit ''acme.example.com''"
    using w u by (simp add: sample_hostname_def)
  show ?thesis
    using run u d by (intro conjI)
qed

end
